theory Spec2Isabelle
  imports Main "HOL-Library.Word" "HOL-Library.Char_ord" "HOL-Library.List_Lexorder"
begin

section \<open>Snapshot loader: shallow embedding of be/src/runtime/snapshot_loader.cpp\<close>

subsection \<open>Status values\<close>

text \<open>
  A \<open>Status\<close> is either OK or an error kind with its message. Only the kinds that
  snapshot_loader.cpp constructs are listed; \<open>ADAPTER_ERROR\<close> stands for whatever a
  collaborator outside this file (filesystem driver, storage engine) reports.
  \<open>throw Exception(Status::FatalError(..))\<close> leaves the function by unwinding, not
  by returning: \<open>outcome\<close> keeps the two apart.
\<close>

datatype error_code =
    INTERNAL_ERROR | RUNTIME_ERROR | IO_ERROR | CANCELLED | OBTAIN_LOCK_FAILED
  | EXCEEDED_LIMIT | FATAL_ERROR | ADAPTER_ERROR

datatype status = OK | Error error_code string

datatype outcome = Returned status | Thrown status

type_synonym int64 = "64 word"
type_synonym int32 = "32 word"

subsection \<open>Decimal output of integers (\<open>ss << tablet_id\<close>)\<close>

definition digit_char :: "nat \<Rightarrow> char" where
  "digit_char d = ''0123456789'' ! d"

fun string_of_nat :: "nat \<Rightarrow> string" where
  "string_of_nat n =
     (if n < 10 then [digit_char n] else string_of_nat (n div 10) @ [digit_char (n mod 10)])"

declare string_of_nat.simps [simp del]

definition string_of_int :: "int \<Rightarrow> string" where
  "string_of_int i = (if i < 0 then CHR ''-'' # string_of_nat (nat (- i)) else string_of_nat (nat i))"

text \<open>An \<open>int64_t\<close> is printed as the signed value of its 64 bits.\<close>

definition string_of_int64 :: "int64 \<Rightarrow> string" where
  "string_of_int64 w = string_of_int (sint w)"

subsection \<open>\<open>_end_with\<close> and \<open>_replace_tablet_id\<close>\<close>

text \<open>
  \<open>str.size() >= match.size() && str.compare(str.size() - match.size(), match.size(), match) == 0\<close>
\<close>

definition end_with :: "string \<Rightarrow> string \<Rightarrow> bool" where
  "end_with str match \<longleftrightarrow>
     length str \<ge> length match \<and> drop (length str - length match) str = match"

text \<open>
  The new name is an out-parameter written only on the two OK branches; the model returns
  it beside the status, \<open>None\<close> when the source leaves \<open>*new_file_name\<close> untouched.
\<close>

definition replace_tablet_id :: "string \<Rightarrow> int64 \<Rightarrow> status \<times> string option" where
  "replace_tablet_id file_name tablet_id =
     (if end_with file_name ''.hdr'' then (OK, Some (string_of_int64 tablet_id @ ''.hdr''))
      else if end_with file_name ''.idx'' \<or> end_with file_name ''.dat'' then (OK, Some file_name)
      else (Error INTERNAL_ERROR (''invalid tablet file name: '' @ file_name), None))"


subsection \<open>Formatted input of integers (\<open>ss >> *tablet_id\<close>, \<open>ss >> *schema_hash\<close>)\<close>

text \<open>
  \<open>operator>>\<close> on a \<open>std::stringstream\<close> in the default state: leading whitespace is
  skipped; if nothing is left the sentry fails and the target is not written; otherwise an
  optional sign and the longest run of decimal digits are read; with no digit the target
  becomes 0, and a value out of range becomes the nearest bound of the target type.
  \<open>extract_long\<close> is the \<open>long\<close> extraction, \<open>None\<close> when the target is not written.
\<close>

definition isspace :: "char \<Rightarrow> bool" where
  "isspace c \<longleftrightarrow> c \<in> set [CHR '' '', CHR 0x09, CHR 0x0A, CHR 0x0B, CHR 0x0C, CHR 0x0D]"

definition isdigit :: "char \<Rightarrow> bool" where
  "isdigit c \<longleftrightarrow> c \<in> set ''0123456789''"

definition digit_val :: "char \<Rightarrow> nat" where
  "digit_val c = of_char c - 48"

definition decimal_value :: "string \<Rightarrow> nat" where
  "decimal_value ds = foldl (\<lambda>acc c. 10 * acc + digit_val c) 0 ds"

definition extract_long :: "string \<Rightarrow> int option" where
  "extract_long s =
     (let s1 = dropWhile isspace s in
      if s1 = [] then None
      else
        let neg = (hd s1 = CHR ''-'');
            s2 = (if hd s1 = CHR ''-'' \<or> hd s1 = CHR ''+'' then tl s1 else s1);
            ds = takeWhile isdigit s2
        in if ds = [] then Some 0
           else if neg then Some (max (- (2 ^ 63)) (- int (decimal_value ds)))
           else Some (min (2 ^ 63 - 1) (int (decimal_value ds))))"

definition extract_int64 :: "string \<Rightarrow> int64 \<Rightarrow> int64" where
  "extract_int64 s target = (case extract_long s of None \<Rightarrow> target | Some v \<Rightarrow> word_of_int v)"

definition extract_int32 :: "string \<Rightarrow> int32 \<Rightarrow> int32" where
  "extract_int32 s target =
     (case extract_long s of
        None \<Rightarrow> target
      | Some v \<Rightarrow> word_of_int (max (- (2 ^ 31)) (min (2 ^ 31 - 1) v)))"

subsection \<open>\<open>std::string::find_last_of\<close> for a single character\<close>

text \<open>
  The position argument is a \<open>size_t\<close>; \<open>None\<close> stands for \<open>npos\<close>, both as argument
  (search the whole string) and as result (not found). The search looks at the indices
  up to and including the position.
\<close>

definition find_last_of :: "string \<Rightarrow> char \<Rightarrow> nat option \<Rightarrow> nat option" where
  "find_last_of s c pos =
     (let n = (case pos of None \<Rightarrow> length s | Some p \<Rightarrow> min (p + 1) (length s));
          idxs = filter (\<lambda>i. s ! i = c) [0..<n]
      in if idxs = [] then None else Some (last idxs))"

subsection \<open>Path codec\<close>

text \<open>
  \<open>_get_tablet_id_and_schema_hash_from_file_path\<close>. The two out-parameters are passed in
  with their current values and returned: \<open>*schema_hash\<close> is written before the second
  separator is looked for, so it can change on an error return too. \<open>pos - 1\<close> is
  computed in \<open>size_t\<close>: for \<open>pos = 0\<close> it wraps to \<open>npos\<close>.
\<close>

definition get_tablet_id_and_schema_hash_from_file_path ::
  "string \<Rightarrow> int64 \<Rightarrow> int32 \<Rightarrow> status \<times> int64 \<times> int32" where
  "get_tablet_id_and_schema_hash_from_file_path src_path tablet_id schema_hash =
     (case find_last_of src_path CHR ''/'' None of
        None \<Rightarrow>
          (Error INTERNAL_ERROR (''failed to get tablet id from path: '' @ src_path),
           tablet_id, schema_hash)
      | Some pos \<Rightarrow>
          if pos + 1 = length src_path
          then (Error INTERNAL_ERROR (''failed to get tablet id from path: '' @ src_path),
                tablet_id, schema_hash)
          else
            let schema_hash_str = drop (pos + 1) src_path;
                schema_hash' = extract_int32 schema_hash_str schema_hash
            in case find_last_of src_path CHR ''/'' (if pos = 0 then None else Some (pos - 1)) of
                 None \<Rightarrow>
                   (Error INTERNAL_ERROR (''failed to get tablet id from path: '' @ src_path),
                    tablet_id, schema_hash')
               | Some pos2 \<Rightarrow>
                   let tablet_str = take (pos - pos2) (drop (pos2 + 1) src_path)
                   in (OK, extract_int64 tablet_str tablet_id, schema_hash'))"

definition get_tablet_id_from_remote_path :: "string \<Rightarrow> int64 \<Rightarrow> status \<times> int64" where
  "get_tablet_id_from_remote_path remote_path tablet_id =
     (case find_last_of remote_path CHR ''_'' None of
        None \<Rightarrow> (Error INTERNAL_ERROR (''invalid remove file path: '' @ remote_path), tablet_id)
      | Some pos \<Rightarrow> (OK, extract_int64 (drop (pos + 1) remote_path) tablet_id))"


subsection \<open>Collaborators outside this file\<close>

text \<open>
  Modelled from the spec: the enumeration \<open>io::FileSystemType\<close> is declared in
  io/fs/file_system.h, outside this file. The spec has the kinds object-store, broker and
  distributed-fs and calls every other kind unknown; \<open>upload_with_checksum\<close> names the
  enumerators \<open>S3\<close>, \<open>BROKER\<close> and \<open>HDFS\<close> and sends every other value to
  \<open>default\<close>. \<open>OTHER_FS n\<close> is such a value, \<open>n\<close> its \<open>static_cast<int>\<close>.
\<close>

datatype file_system_type = S3 | HDFS | BROKER | OTHER_FS nat

text \<open>
  Modelled from the spec: \<open>io::FileInfo\<close>, an entry of a directory listing, is declared
  with the filesystem interface. The loader reads its \<open>file_name\<close> and \<open>file_size\<close>.
\<close>

record file_info =
  file_name :: string
  file_size :: int64

text \<open>
  The state the loader works on has two parts: \<open>'l\<close>, the local node (its filesystem and
  storage engine), and \<open>'s\<close>, everything reached over the network (the remote store and
  the frontend). The types of the operations say which part each one can read and write.
  \<open>calls\<close> records, in order, the remote-filesystem calls, the report RPCs and the
  operations that change the local node. The guard of \<open>LocalSnapshotLock\<close> that every
  operation takes on its local path keeps other loaders away for the time of the call; a
  single call, which is what is modelled, is not affected by it.
\<close>

datatype TTaskType = UPLOAD | DOWNLOAD

record report_request =
  req_job_id :: int64
  req_task_id :: int64
  req_task_type :: TTaskType
  req_finished_num :: int
  req_total_num :: int

datatype call =
    FsList string
  | FsUpload string string
  | FsRename string string
  | FsDownload string string
  | SnapshotLoaderReport report_request
  | Remove string
  | ConvertRowsetIds string
  | RemoveAll string
  | CreateDirectory string
  | Link string string
  | LoadTabletFromDir string

record ('l, 's) world =
  loc :: 'l
  ext :: 's
  calls :: "call list"

text \<open>\<open>io::RemoteFileSystem\<close>: the capability interface of a remote store.\<close>

record ('l, 's) remote_file_system =
  fs_type :: file_system_type
  fs_list :: "string \<Rightarrow> 's \<Rightarrow> (status \<times> file_info list) \<times> 's"
  fs_upload :: "string \<Rightarrow> string \<Rightarrow> 'l \<Rightarrow> 's \<Rightarrow> status \<times> 's"
  fs_rename :: "string \<Rightarrow> string \<Rightarrow> 's \<Rightarrow> status \<times> 's"
  fs_download :: "string \<Rightarrow> string \<Rightarrow> 'l \<Rightarrow> 's \<Rightarrow> status \<times> 'l \<times> 's"

text \<open>
  Modelled from the spec: \<open>TStatusCode\<close> is generated from the Thrift definitions. The
  spec's coordinator RPC returns a status code, of which \<open>CANCELLED\<close> ends the task and
  every other one is ignored; the loader compares against \<open>CANCELLED\<close> only. The RPC
  helper either fails with its own status or delivers the frontend's \<open>TStatus\<close>.
\<close>

datatype TStatusCode = TStatusCode_OK | TStatusCode_CANCELLED | TStatusCode_OTHER nat

datatype rpc_result = RpcFailed status | RpcDelivered TStatusCode

datatype tablet_lock =
    MIGRATION_LOCK | BASE_COMPACTION_LOCK | CUMULATIVE_COMPACTION_LOCK
  | COLD_COMPACTION_LOCK | BUILD_INVERTED_INDEX_LOCK | META_STORE_LOCK

record tablet =
  tablet_path :: string
  data_dir_path :: string
  replica_id :: int64
  table_id :: int64
  partition_id :: int64

text \<open>
  The local filesystem (\<open>io::global_local_filesystem()\<close>, \<open>std::filesystem\<close>, \<open>link\<close>,
  \<open>remove\<close>), the storage engine and the frontend client, as the loader calls them. They
  are parameters: nothing is assumed about what they do. \<open>c_remove\<close> and \<open>c_link\<close>
  return whether the C call returned 0; \<open>remove_all\<close>, \<open>create_directory\<close> and
  \<open>convert_rowset_ids\<close> return the message of the failure, if any; \<open>get_store\<close> says
  whether the store is found.
\<close>

record ('l, 's) sys =
  snapshotLoaderReport :: "report_request \<Rightarrow> 's \<Rightarrow> rpc_result \<times> 's"
  l_is_directory :: "string \<Rightarrow> 'l \<Rightarrow> status \<times> bool"
  l_list :: "string \<Rightarrow> 'l \<Rightarrow> status \<times> file_info list"
  l_md5sum :: "string \<Rightarrow> 'l \<Rightarrow> status \<times> string"
  l_exists :: "string \<Rightarrow> 'l \<Rightarrow> bool"
  c_remove :: "string \<Rightarrow> 'l \<Rightarrow> bool \<times> 'l"
  c_link :: "string \<Rightarrow> string \<Rightarrow> 'l \<Rightarrow> bool \<times> 'l"
  remove_all :: "string \<Rightarrow> 'l \<Rightarrow> string option \<times> 'l"
  create_directory :: "string \<Rightarrow> 'l \<Rightarrow> string option \<times> 'l"
  get_tablet :: "int64 \<Rightarrow> 'l \<Rightarrow> tablet option"
  reach_capacity_limit :: "tablet \<Rightarrow> int64 \<Rightarrow> 'l \<Rightarrow> bool"
  get_store :: "string \<Rightarrow> 'l \<Rightarrow> bool"
  convert_rowset_ids ::
    "string \<Rightarrow> int64 \<Rightarrow> int64 \<Rightarrow> int64 \<Rightarrow> int64 \<Rightarrow> int32 \<Rightarrow> 'l \<Rightarrow> string option \<times> 'l"
  try_lock :: "tablet_lock \<Rightarrow> tablet \<Rightarrow> 'l \<Rightarrow> bool"
  load_tablet_from_dir :: "string \<Rightarrow> int64 \<Rightarrow> int32 \<Rightarrow> string \<Rightarrow> bool \<Rightarrow> 'l \<Rightarrow> status \<times> 'l"

record ('l, 's) loader =
  job_id :: int64
  task_id :: int64
  remote_fs :: "('l, 's) remote_file_system option"

subsection \<open>\<open>_report_every\<close>\<close>

text \<open>
  The counter is an \<open>int\<close> behind a pointer: it is passed in and returned. It counts files
  between two reports and is reset by every delivered report, so it is modelled as an
  unbounded integer.
\<close>

definition report_every ::
  "('l, 's) sys \<Rightarrow> ('l, 's) loader \<Rightarrow> int \<Rightarrow> int \<Rightarrow> int \<Rightarrow> int \<Rightarrow> TTaskType \<Rightarrow> ('l, 's) world
     \<Rightarrow> status \<times> int \<times> ('l, 's) world" where
  "report_every sys ld report_threshold counter finished_num total_num type w =
     (let counter1 = counter + 1 in
      if counter1 \<le> report_threshold then (OK, counter1, w)
      else
        let request = \<lparr>req_job_id = job_id ld, req_task_id = task_id ld, req_task_type = type,
                        req_finished_num = finished_num, req_total_num = total_num\<rparr>;
            (rpc, s') = snapshotLoaderReport sys request (ext w);
            w' = w\<lparr>ext := s', calls := calls w @ [SnapshotLoaderReport request]\<rparr>
        in case rpc of
             RpcFailed rpcStatus \<Rightarrow> (OK, counter1, w')
           | RpcDelivered status_code \<Rightarrow>
               if status_code = TStatusCode_CANCELLED
               then (Error CANCELLED ''Cancelled'', 0, w')
               else (OK, 0, w'))"

subsection \<open>Checksum-indexed remote listing\<close>

text \<open>
  \<open>std::map<std::string, V>\<close>: an association list kept in ascending key order.
  \<open>emplace\<close> inserts only when the key is absent.
\<close>

fun map_emplace :: "string \<Rightarrow> 'v \<Rightarrow> (string \<times> 'v) list \<Rightarrow> (string \<times> 'v) list" where
  "map_emplace k v [] = [(k, v)]"
| "map_emplace k v ((k', v') # m) =
     (if k = k' then (k', v') # m
      else if k < k' then (k, v) # (k', v') # m
      else (k', v') # map_emplace k v m)"

text \<open>
  Modelled from the spec: \<open>FileStat\<close> is declared in runtime/snapshot_loader.h. The spec
  gives it as name without md5, md5 and size; \<open>_list_with_checksum\<close> fills the three
  fields in this order.
\<close>

record FileStat =
  stat_name :: string
  stat_md5 :: string
  stat_size :: int64

text \<open>\<open>io::Path(..).filename()\<close>: what follows the last directory separator.\<close>

definition path_filename :: "string \<Rightarrow> string" where
  "path_filename p = (case find_last_of p CHR ''/'' None of None \<Rightarrow> p | Some i \<Rightarrow> drop (i + 1) p)"

fun index_with_checksum :: "file_info list \<Rightarrow> (string \<times> FileStat) list \<Rightarrow> (string \<times> FileStat) list" where
  "index_with_checksum [] md5_files = md5_files"
| "index_with_checksum (tmp_file # files) md5_files =
     (let fname = path_filename (file_name tmp_file) in
      case find_last_of fname CHR ''.'' None of
        None \<Rightarrow> index_with_checksum files md5_files
      | Some pos \<Rightarrow>
          if pos + 1 = length fname then index_with_checksum files md5_files
          else index_with_checksum files
                 (map_emplace (take pos fname)
                    \<lparr>stat_name = take pos fname, stat_md5 = drop (pos + 1) fname,
                     stat_size = file_size tmp_file\<rparr> md5_files))"

definition list_with_checksum ::
  "('l, 's) remote_file_system \<Rightarrow> string \<Rightarrow> (string \<times> FileStat) list \<Rightarrow> ('l, 's) world
     \<Rightarrow> status \<times> (string \<times> FileStat) list \<times> ('l, 's) world" where
  "list_with_checksum fs dir md5_files w =
     (let ((st, files), s') = fs_list fs dir (ext w);
          w' = w\<lparr>ext := s', calls := calls w @ [FsList dir]\<rparr>
      in if st \<noteq> OK then (st, md5_files, w')
         else (OK, index_with_checksum files md5_files, w'))"

subsection \<open>\<open>upload_with_checksum\<close>\<close>

definition do_upload ::
  "('l, 's) remote_file_system \<Rightarrow> string \<Rightarrow> string \<Rightarrow> ('l, 's) world \<Rightarrow> status \<times> ('l, 's) world" where
  "do_upload fs local_path remote_path w =
     (let (st, s') = fs_upload fs local_path remote_path (loc w) (ext w)
      in (st, w\<lparr>ext := s', calls := calls w @ [FsUpload local_path remote_path]\<rparr>))"

definition do_rename ::
  "('l, 's) remote_file_system \<Rightarrow> string \<Rightarrow> string \<Rightarrow> ('l, 's) world \<Rightarrow> status \<times> ('l, 's) world" where
  "do_rename fs orig_name new_name w =
     (let (st, s') = fs_rename fs orig_name new_name (ext w)
      in (st, w\<lparr>ext := s', calls := calls w @ [FsRename orig_name new_name]\<rparr>))"

definition upload_with_checksum ::
  "('l, 's) remote_file_system \<Rightarrow> string \<Rightarrow> string \<Rightarrow> string \<Rightarrow> ('l, 's) world
     \<Rightarrow> outcome \<times> ('l, 's) world" where
  "upload_with_checksum fs local_path remote_path checksum w =
     (let full_remote_path = remote_path @ ''.'' @ checksum in
      case fs_type fs of
        HDFS \<Rightarrow>
          (let temp = remote_path @ ''.part'';
               (st, w1) = do_upload fs local_path temp w
           in if st \<noteq> OK then (Returned st, w1)
              else let (st2, w2) = do_rename fs temp full_remote_path w1
                   in if st2 \<noteq> OK then (Returned st2, w2) else (Returned OK, w2))
      | BROKER \<Rightarrow>
          (let temp = remote_path @ ''.part'';
               (st, w1) = do_upload fs local_path temp w
           in if st \<noteq> OK then (Returned st, w1)
              else let (st2, w2) = do_rename fs temp full_remote_path w1
                   in if st2 \<noteq> OK then (Returned st2, w2) else (Returned OK, w2))
      | S3 \<Rightarrow>
          (let (st, w1) = do_upload fs local_path full_remote_path w
           in if st \<noteq> OK then (Returned st, w1) else (Returned OK, w1))
      | OTHER_FS n \<Rightarrow>
          (Thrown (Error FATAL_ERROR (''unknown fs type: '' @ string_of_nat n)), w))"


subsection \<open>Local helpers\<close>

text \<open>
  \<open>_check_local_snapshot_paths\<close>: \<open>check_src\<close> selects the key or the value of each pair.
  The map is given as the list of its pairs in iteration order (ascending keys).
\<close>

fun check_local_snapshot_paths ::
  "('l, 's) sys \<Rightarrow> (string \<times> string) list \<Rightarrow> bool \<Rightarrow> 'l \<Rightarrow> status" where
  "check_local_snapshot_paths sys [] check_src l = OK"
| "check_local_snapshot_paths sys (pair # rest) check_src l =
     (let path = (if check_src then fst pair else snd pair);
          (st, res) = l_is_directory sys path l
      in if st \<noteq> OK then st
         else if \<not> res
           then Error RUNTIME_ERROR (''snapshot path is not directory or does not exist: '' @ path)
         else check_local_snapshot_paths sys rest check_src l)"

text \<open>\<open>_get_existing_files_from_local\<close> appends the listed names to \<open>*local_files\<close>.\<close>

definition get_existing_files_from_local ::
  "('l, 's) sys \<Rightarrow> string \<Rightarrow> string list \<Rightarrow> 'l \<Rightarrow> status \<times> string list" where
  "get_existing_files_from_local sys local_path local_files l =
     (let (st, files) = l_list sys local_path l
      in if st \<noteq> OK then (st, local_files) else (OK, local_files @ map file_name files))"

subsection \<open>\<open>SnapshotLoader::upload\<close>\<close>

text \<open>Lines 184--196: the decision whether a local file has to be transferred.\<close>

definition need_upload :: "(string \<times> FileStat) list \<Rightarrow> string \<Rightarrow> string \<Rightarrow> bool" where
  "need_upload remote_files local_file md5sum =
     (case map_of remote_files local_file of
        Some found \<Rightarrow> md5sum \<noteq> stat_md5 found
      | None \<Rightarrow> True)"

text \<open>
  The loop over the local files of one tablet (2.3). It carries \<open>local_files_with_checksum\<close>
  and \<open>report_counter\<close>; both are returned as they stand when the loop is left early.
\<close>

fun upload_files ::
  "('l, 's) sys \<Rightarrow> ('l, 's) loader \<Rightarrow> ('l, 's) remote_file_system \<Rightarrow> string \<Rightarrow> string
     \<Rightarrow> (string \<times> FileStat) list \<Rightarrow> string list \<Rightarrow> string list \<Rightarrow> int \<Rightarrow> int \<Rightarrow> int
     \<Rightarrow> ('l, 's) world \<Rightarrow> outcome \<times> string list \<times> int \<times> ('l, 's) world" where
  "upload_files sys ld fs src_path dest_path remote_files [] lfwc report_counter finished_num
       total_num w = (Returned OK, lfwc, report_counter, w)"
| "upload_files sys ld fs src_path dest_path remote_files (local_file # rest) lfwc report_counter
       finished_num total_num w =
     (case report_every sys ld 10 report_counter finished_num total_num UPLOAD w of
        (st, rc, w1) \<Rightarrow>
          if st \<noteq> OK then (Returned st, lfwc, rc, w1)
          else
            case l_md5sum sys (src_path @ ''/'' @ local_file) (loc w1) of
              (st2, md5sum) \<Rightarrow>
                if st2 \<noteq> OK then (Returned st2, lfwc, rc, w1)
                else
                  let lfwc' = lfwc @ [local_file @ ''.'' @ md5sum] in
                  if \<not> need_upload remote_files local_file md5sum
                  then upload_files sys ld fs src_path dest_path remote_files rest lfwc' rc
                         finished_num total_num w1
                  else
                    case upload_with_checksum fs (src_path @ ''/'' @ local_file)
                           (dest_path @ ''/'' @ local_file) md5sum w1 of
                      (res, w2) \<Rightarrow>
                        if res \<noteq> Returned OK then (res, lfwc', rc, w2)
                        else upload_files sys ld fs src_path dest_path remote_files rest lfwc' rc
                               finished_num total_num w2)"

text \<open>\<open>std::map<int64_t, ..>::emplace\<close> on the manifest: an existing key keeps its value.\<close>

definition manifest_emplace ::
  "int64 \<Rightarrow> string list \<Rightarrow> (int64 \<rightharpoonup> string list) \<Rightarrow> (int64 \<rightharpoonup> string list)" where
  "manifest_emplace k v m = (case m k of Some old \<Rightarrow> m | None \<Rightarrow> m(k \<mapsto> v))"

text \<open>The loop over the tablets (step 2).\<close>

fun upload_tablets ::
  "('l, 's) sys \<Rightarrow> ('l, 's) loader \<Rightarrow> ('l, 's) remote_file_system \<Rightarrow> (string \<times> string) list
     \<Rightarrow> int \<Rightarrow> int \<Rightarrow> int \<Rightarrow> (int64 \<rightharpoonup> string list) \<Rightarrow> ('l, 's) world
     \<Rightarrow> outcome \<times> (int64 \<rightharpoonup> string list) \<times> ('l, 's) world" where
  "upload_tablets sys ld fs [] report_counter finished_num total_num tablet_files w =
     (Returned OK, tablet_files, w)"
| "upload_tablets sys ld fs (iter # rest) report_counter finished_num total_num tablet_files w =
     (let src_path = fst iter; dest_path = snd iter in
      case get_tablet_id_and_schema_hash_from_file_path src_path 0 0 of
        (st, tablet_id, schema_hash) \<Rightarrow>
          if st \<noteq> OK then (Returned st, tablet_files, w)
          else
            case list_with_checksum fs dest_path [] w of
              (st2, remote_files, w1) \<Rightarrow>
                if st2 \<noteq> OK then (Returned st2, tablet_files, w1)
                else
                  case get_existing_files_from_local sys src_path [] (loc w1) of
                    (st3, local_files) \<Rightarrow>
                      if st3 \<noteq> OK then (Returned st3, tablet_files, w1)
                      else
                        case upload_files sys ld fs src_path dest_path remote_files local_files []
                               report_counter finished_num total_num w1 of
                          (res, lfwc, rc, w2) \<Rightarrow>
                            if res \<noteq> Returned OK then (res, tablet_files, w2)
                            else upload_tablets sys ld fs rest rc (finished_num + 1) total_num
                                   (manifest_emplace tablet_id lfwc tablet_files) w2)"

definition upload ::
  "('l, 's) sys \<Rightarrow> ('l, 's) loader \<Rightarrow> (string \<times> string) list \<Rightarrow> (int64 \<rightharpoonup> string list)
     \<Rightarrow> ('l, 's) world \<Rightarrow> outcome \<times> (int64 \<rightharpoonup> string list) \<times> ('l, 's) world" where
  "upload sys ld src_to_dest_path tablet_files w =
     (case remote_fs ld of
        None \<Rightarrow> (Returned (Error INTERNAL_ERROR ''Storage backend not initialized.''), tablet_files, w)
      | Some fs \<Rightarrow>
          (case report_every sys ld 0 1 0 0 UPLOAD w of
             (st, tmp_counter, w1) \<Rightarrow>
               if st \<noteq> OK then (Returned st, tablet_files, w1)
               else
                 let st2 = check_local_snapshot_paths sys src_to_dest_path True (loc w1) in
                 if st2 \<noteq> OK then (Returned st2, tablet_files, w1)
                 else upload_tablets sys ld fs src_to_dest_path 0 0
                        (int (length src_to_dest_path)) tablet_files w1))"


subsection \<open>Retargeting a file name and back\<close>

text \<open>
  \<open>download\<close> rewrites a remote file name with the local tablet id before writing it, and
  rewrites local names with the remote tablet id before comparing them with the remote
  listing. \<open>rewrite_there_and_back name L R\<close> composes the two calls of
  \<open>_replace_tablet_id\<close>.
\<close>

definition rewrite_there_and_back :: "string \<Rightarrow> int64 \<Rightarrow> int64 \<Rightarrow> status \<times> string option" where
  "rewrite_there_and_back name L R =
     (case replace_tablet_id name L of
        (OK, Some local_name) \<Rightarrow> replace_tablet_id local_name R
      | r \<Rightarrow> r)"


subsection \<open>\<open>SnapshotLoader::download\<close>\<close>

text \<open>Lines 291--320: the decision whether a remote file has to be fetched.\<close>

definition need_download ::
  "('l, 's) sys \<Rightarrow> string \<Rightarrow> string list \<Rightarrow> string \<Rightarrow> FileStat \<Rightarrow> 'l \<Rightarrow> bool" where
  "need_download sys local_path local_files remote_file file_stat l =
     (if remote_file \<notin> set local_files then True
      else if end_with remote_file ''.hdr'' then True
      else
        let (st, local_md5sum) = l_md5sum sys (local_path @ ''/'' @ remote_file) l
        in if st \<noteq> OK then True else stat_md5 file_stat \<noteq> local_md5sum)"

definition do_download ::
  "('l, 's) remote_file_system \<Rightarrow> string \<Rightarrow> string \<Rightarrow> ('l, 's) world \<Rightarrow> status \<times> ('l, 's) world" where
  "do_download fs remote_file local_file w =
     (let (st, l', s') = fs_download fs remote_file local_file (loc w) (ext w)
      in (st, w\<lparr>loc := l', ext := s', calls := calls w @ [FsDownload remote_file local_file]\<rparr>))"

text \<open>
  The loop over the remote files of one tablet. \<open>local_files\<close> is the vector that is kept
  up to date: the entry found is erased before the transfer and the new local name is
  pushed after the check of the downloaded bytes.
\<close>

fun download_files ::
  "('l, 's) sys \<Rightarrow> ('l, 's) loader \<Rightarrow> ('l, 's) remote_file_system \<Rightarrow> string \<Rightarrow> string \<Rightarrow> int64
     \<Rightarrow> tablet \<Rightarrow> (string \<times> FileStat) list \<Rightarrow> string list \<Rightarrow> int \<Rightarrow> int \<Rightarrow> int
     \<Rightarrow> ('l, 's) world \<Rightarrow> status \<times> string list \<times> int \<times> ('l, 's) world" where
  "download_files sys ld fs remote_path local_path local_tablet_id tab [] local_files
       report_counter finished_num total_num w = (OK, local_files, report_counter, w)"
| "download_files sys ld fs remote_path local_path local_tablet_id tab (iter # rest) local_files
       report_counter finished_num total_num w =
     (let remote_file = fst iter; file_stat = snd iter in
      case report_every sys ld 10 report_counter finished_num total_num DOWNLOAD w of
        (st, rc, w1) \<Rightarrow>
          if st \<noteq> OK then (st, local_files, rc, w1)
          else if \<not> need_download sys local_path local_files remote_file file_stat (loc w1)
          then download_files sys ld fs remote_path local_path local_tablet_id tab rest
                 local_files rc finished_num total_num w1
          else
            let full_remote_file = remote_path @ ''/'' @ remote_file @ ''.'' @ stat_md5 file_stat in
            case replace_tablet_id remote_file local_tablet_id of
              (st2, None) \<Rightarrow> (st2, local_files, rc, w1)
            | (st2, Some local_file_name) \<Rightarrow>
                if st2 \<noteq> OK then (st2, local_files, rc, w1)
                else
                  let full_local_file = local_path @ ''/'' @ local_file_name;
                      file_len = stat_size file_stat
                  in if reach_capacity_limit sys tab file_len (loc w1)
                     then (Error EXCEEDED_LIMIT
                             (''reach the capacity limit of path '' @ data_dir_path tab
                                @ '', file_size='' @ string_of_nat (unat file_len)),
                           local_files, rc, w1)
                     else
                       let local_files1 = remove1 remote_file local_files in
                       case do_download fs full_remote_file full_local_file w1 of
                         (st3, w2) \<Rightarrow>
                           if st3 \<noteq> OK then (st3, local_files1, rc, w2)
                           else
                             case l_md5sum sys full_local_file (loc w2) of
                               (st4, downloaded_md5sum) \<Rightarrow>
                                 if st4 \<noteq> OK then (st4, local_files1, rc, w2)
                                 else if downloaded_md5sum \<noteq> stat_md5 file_stat
                                 then (Error INTERNAL_ERROR
                                         (''invalid md5 of downloaded file: '' @ full_local_file
                                            @ '', expected: '' @ stat_md5 file_stat
                                            @ '', get: '' @ downloaded_md5sum),
                                       local_files1, rc, w2)
                                 else download_files sys ld fs remote_path local_path
                                        local_tablet_id tab rest
                                        (local_files1 @ [local_file_name]) rc finished_num
                                        total_num w2)"

text \<open>The final loop of a pair: local files that are not in the remote listing are deleted.\<close>

fun prune_local_files ::
  "('l, 's) sys \<Rightarrow> string \<Rightarrow> int64 \<Rightarrow> (string \<times> FileStat) list \<Rightarrow> string list
     \<Rightarrow> ('l, 's) world \<Rightarrow> ('l, 's) world" where
  "prune_local_files sys local_path remote_tablet_id remote_files [] w = w"
| "prune_local_files sys local_path remote_tablet_id remote_files (local_file # rest) w =
     (case replace_tablet_id local_file remote_tablet_id of
        (OK, Some new_name) \<Rightarrow>
          if map_of remote_files new_name \<noteq> None
          then prune_local_files sys local_path remote_tablet_id remote_files rest w
          else
            let full_local_file = local_path @ ''/'' @ local_file;
                (removed, l') = c_remove sys full_local_file (loc w)
            in prune_local_files sys local_path remote_tablet_id remote_files rest
                 (w\<lparr>loc := l', calls := calls w @ [Remove full_local_file]\<rparr>)
      | _ \<Rightarrow> prune_local_files sys local_path remote_tablet_id remote_files rest w)"

text \<open>
  The body of the loop over the pairs, for one pair. \<open>downloaded_tablet_ids\<close> is the
  caller's vector; it is returned as it stands on every exit, with the report counter and
  the state. \<open>remote_tablet_id\<close> is declared without an initial value: \<open>uninit\<close> is what
  the variable holds before \<open>_get_tablet_id_from_remote_path\<close> runs.
\<close>

definition download_pair ::
  "('l, 's) sys \<Rightarrow> ('l, 's) loader \<Rightarrow> ('l, 's) remote_file_system \<Rightarrow> int64
     \<Rightarrow> string \<times> string \<Rightarrow> int \<Rightarrow> int \<Rightarrow> int \<Rightarrow> int64 list \<Rightarrow> ('l, 's) world
     \<Rightarrow> status \<times> int64 list \<times> int \<times> ('l, 's) world" where
  "download_pair sys ld fs uninit iter report_counter finished_num total_num
       downloaded_tablet_ids w =
     (let remote_path = fst iter; local_path = snd iter in
      case get_tablet_id_and_schema_hash_from_file_path local_path 0 0 of
        (st, local_tablet_id, schema_hash) \<Rightarrow>
          if st \<noteq> OK then (st, downloaded_tablet_ids, report_counter, w)
          else
            let ids = downloaded_tablet_ids @ [local_tablet_id] in
            case get_tablet_id_from_remote_path remote_path uninit of
              (st2, remote_tablet_id) \<Rightarrow>
                if st2 \<noteq> OK then (st2, ids, report_counter, w)
                else
                  case get_existing_files_from_local sys local_path [] (loc w) of
                    (st3, local_files) \<Rightarrow>
                      if st3 \<noteq> OK then (st3, ids, report_counter, w)
                      else
                        case list_with_checksum fs remote_path [] w of
                          (st4, remote_files, w1) \<Rightarrow>
                            if st4 \<noteq> OK then (st4, ids, report_counter, w1)
                            else if remote_files = []
                            then (Error INTERNAL_ERROR
                                    (''get nothing from remote path: '' @ remote_path),
                                  ids, report_counter, w1)
                            else
                              case get_tablet sys local_tablet_id (loc w1) of
                                None \<Rightarrow>
                                  (Error INTERNAL_ERROR
                                     (''failed to get local tablet: ''
                                        @ string_of_int64 local_tablet_id),
                                   ids, report_counter, w1)
                              | Some tab \<Rightarrow>
                                  case download_files sys ld fs remote_path local_path
                                         local_tablet_id tab remote_files local_files
                                         report_counter finished_num total_num w1 of
                                    (st5, local_files', rc, w2) \<Rightarrow>
                                      if st5 \<noteq> OK then (st5, ids, rc, w2)
                                      else (OK, ids, rc,
                                            prune_local_files sys local_path remote_tablet_id
                                              remote_files local_files' w2))"

text \<open>
  The loop over the pairs: it stops at the first pair that returns an error, and counts a
  finished pair otherwise.
\<close>

fun download_tablets ::
  "('l, 's) sys \<Rightarrow> ('l, 's) loader \<Rightarrow> ('l, 's) remote_file_system \<Rightarrow> int64
     \<Rightarrow> (string \<times> string) list \<Rightarrow> int \<Rightarrow> int \<Rightarrow> int \<Rightarrow> int64 list \<Rightarrow> ('l, 's) world
     \<Rightarrow> status \<times> int64 list \<times> ('l, 's) world" where
  "download_tablets sys ld fs uninit [] report_counter finished_num total_num
       downloaded_tablet_ids w = (OK, downloaded_tablet_ids, w)"
| "download_tablets sys ld fs uninit (iter # rest) report_counter finished_num total_num
       downloaded_tablet_ids w =
     (case download_pair sys ld fs uninit iter report_counter finished_num total_num
             downloaded_tablet_ids w of
        (st, ids, rc, w1) \<Rightarrow>
          if st \<noteq> OK then (st, ids, w1)
          else download_tablets sys ld fs uninit rest rc (finished_num + 1) total_num ids w1)"

definition download ::
  "('l, 's) sys \<Rightarrow> ('l, 's) loader \<Rightarrow> int64 \<Rightarrow> (string \<times> string) list \<Rightarrow> int64 list
     \<Rightarrow> ('l, 's) world \<Rightarrow> status \<times> int64 list \<times> ('l, 's) world" where
  "download sys ld uninit src_to_dest_path downloaded_tablet_ids w =
     (case remote_fs ld of
        None \<Rightarrow> (Error INTERNAL_ERROR ''Storage backend not initialized.'', downloaded_tablet_ids, w)
      | Some fs \<Rightarrow>
          (case report_every sys ld 0 1 0 0 DOWNLOAD w of
             (st, tmp_counter, w1) \<Rightarrow>
               if st \<noteq> OK then (st, downloaded_tablet_ids, w1)
               else
                 let st2 = check_local_snapshot_paths sys src_to_dest_path False (loc w1) in
                 if st2 \<noteq> OK then (st2, downloaded_tablet_ids, w1)
                 else download_tablets sys ld fs uninit src_to_dest_path 0 0
                        (int (length src_to_dest_path)) downloaded_tablet_ids w1))"

subsection \<open>\<open>SnapshotLoader::remote_http_download\<close>, step 4\<close>

record LocalFileStat =
  local_size :: "64 word"
  local_md5 :: string

record RemoteFileStat =
  remote_url :: string
  remote_md5 :: string
  remote_size :: "64 word"

text \<open>
  Lines 527--552: the loop that compares the remote files with the local ones and collects
  \<open>need_download_files\<close>. \<open>remote_files\<close> is an \<open>unordered_map\<close>; it is given as the list of
  its entries in the order the loop visits them. \<open>local_files\<close> is only looked up.
\<close>

fun http_need_download_files ::
  "(string \<times> RemoteFileStat) list \<Rightarrow> (string \<rightharpoonup> LocalFileStat) \<Rightarrow> string list \<Rightarrow> string list" where
  "http_need_download_files [] local_files need_download_files = need_download_files"
| "http_need_download_files ((remote_file, remote_filestat) # rest) local_files need_download_files =
     (case local_files remote_file of
        None \<Rightarrow> http_need_download_files rest local_files (need_download_files @ [remote_file])
      | Some local_filestat \<Rightarrow>
          if end_with remote_file ''.hdr''
          then http_need_download_files rest local_files (need_download_files @ [remote_file])
          else if local_size local_filestat \<noteq> remote_size remote_filestat
          then http_need_download_files rest local_files (need_download_files @ [remote_file])
          else if local_md5 local_filestat \<noteq> remote_md5 remote_filestat
          then http_need_download_files rest local_files (need_download_files @ [remote_file])
          else http_need_download_files rest local_files need_download_files)"


subsection \<open>\<open>SnapshotLoader::move\<close>\<close>

text \<open>
  The loop that links the snapshot files into the tablet directory. On the first failing
  \<open>link\<close> the files linked so far are removed again and the loop reports failure.
\<close>

fun remove_linked_files :: "('l, 's) sys \<Rightarrow> string list \<Rightarrow> ('l, 's) world \<Rightarrow> ('l, 's) world" where
  "remove_linked_files sys [] w = w"
| "remove_linked_files sys (linked_file # rest) w =
     (let (removed, l') = c_remove sys linked_file (loc w)
      in remove_linked_files sys rest (w\<lparr>loc := l', calls := calls w @ [Remove linked_file]\<rparr>))"

fun link_files ::
  "('l, 's) sys \<Rightarrow> string \<Rightarrow> string \<Rightarrow> string list \<Rightarrow> string list \<Rightarrow> ('l, 's) world
     \<Rightarrow> bool \<times> ('l, 's) world" where
  "link_files sys snapshot_path tab_path [] linked_files w = (True, w)"
| "link_files sys snapshot_path tab_path (file # rest) linked_files w =
     (let full_src_path = snapshot_path @ ''/'' @ file;
          full_dest_path = tab_path @ ''/'' @ file;
          (linked, l') = c_link sys full_src_path full_dest_path (loc w);
          w1 = w\<lparr>loc := l', calls := calls w @ [Link full_src_path full_dest_path]\<rparr>
      in if \<not> linked then (False, remove_linked_files sys linked_files w1)
         else link_files sys snapshot_path tab_path rest (linked_files @ [full_dest_path]) w1)"

text \<open>
  The six \<open>std::unique_lock\<close>s are constructed with \<open>std::try_to_lock\<close> one after the other
  and released when the function is left; \<open>try_lock\<close> says whether a lock can be taken.
\<close>

definition owns_all_locks :: "('l, 's) sys \<Rightarrow> tablet \<Rightarrow> 'l \<Rightarrow> bool" where
  "owns_all_locks sys tab l \<longleftrightarrow>
     try_lock sys MIGRATION_LOCK tab l \<and> try_lock sys BASE_COMPACTION_LOCK tab l
     \<and> try_lock sys CUMULATIVE_COMPACTION_LOCK tab l \<and> try_lock sys COLD_COMPACTION_LOCK tab l
     \<and> try_lock sys BUILD_INVERTED_INDEX_LOCK tab l \<and> try_lock sys META_STORE_LOCK tab l"

definition move ::
  "('l, 's) sys \<Rightarrow> ('l, 's) loader \<Rightarrow> string \<Rightarrow> tablet \<Rightarrow> bool \<Rightarrow> ('l, 's) world
     \<Rightarrow> outcome \<times> ('l, 's) world" where
  "move sys ld snapshot_path tab overwrite w =
     (let tab_path = tablet_path tab; store_path = data_dir_path tab in
      case get_tablet_id_and_schema_hash_from_file_path snapshot_path 0 0 of
        (st, snapshot_tablet_id, snapshot_schema_hash) \<Rightarrow>
      if st \<noteq> OK then (Returned st, w) else
      case get_tablet_id_and_schema_hash_from_file_path tab_path 0 0 of
        (st2, tablet_id, schema_hash) \<Rightarrow>
      if st2 \<noteq> OK then (Returned st2, w) else
      if tablet_id \<noteq> snapshot_tablet_id \<or> schema_hash \<noteq> snapshot_schema_hash
      then (Returned (Error INTERNAL_ERROR
              (''path does not match. snapshot: '' @ snapshot_path
                 @ '', tablet path: '' @ tab_path)), w) else
      if \<not> get_store sys store_path (loc w)
      then (Returned (Error INTERNAL_ERROR (''failed to get store by path: '' @ store_path)), w) else
      if \<not> l_exists sys tab_path (loc w)
      then (Returned (Error INTERNAL_ERROR (''tablet path does not exist: '' @ tab_path)), w) else
      if \<not> l_exists sys snapshot_path (loc w)
      then (Returned (Error INTERNAL_ERROR (''snapshot path does not exist: '' @ snapshot_path)), w)
      else
      case convert_rowset_ids sys snapshot_path tablet_id (replica_id tab) (table_id tab)
             (partition_id tab) schema_hash (loc w) of
        (res, l1) \<Rightarrow>
      let w1 = w\<lparr>loc := l1, calls := calls w @ [ConvertRowsetIds snapshot_path]\<rparr> in
      case res of
        Some err \<Rightarrow>
          (Returned (Error INTERNAL_ERROR
             (''failed to convert rowsetids in snapshot: '' @ snapshot_path
                @ '', tablet path: '' @ tab_path @ '', err: '' @ err)), w1)
      | None \<Rightarrow>
      if \<not> overwrite then (Thrown (Error FATAL_ERROR ''only support overwrite now''), w1) else
      if \<not> owns_all_locks sys tab (loc w1)
      then (Returned (Error OBTAIN_LOCK_FAILED
              (''failed to get tablet locks, tablet: '' @ string_of_int64 tablet_id)), w1) else
      case get_existing_files_from_local sys snapshot_path [] (loc w1) of
        (st3, snapshot_files) \<Rightarrow>
      if st3 \<noteq> OK then (Returned st3, w1) else
      case remove_all sys tab_path (loc w1) of
        (e1, l2) \<Rightarrow>
      let w2 = w1\<lparr>loc := l2, calls := calls w1 @ [RemoveAll tab_path]\<rparr> in
      case e1 of
        Some what \<Rightarrow>
          (Returned (Error INTERNAL_ERROR
             (''failed to move tablet path: '' @ tab_path @ ''. err: '' @ what)), w2)
      | None \<Rightarrow>
      case create_directory sys tab_path (loc w2) of
        (e2, l3) \<Rightarrow>
      let w3 = w2\<lparr>loc := l3, calls := calls w2 @ [CreateDirectory tab_path]\<rparr> in
      case e2 of
        Some what \<Rightarrow>
          (Returned (Error INTERNAL_ERROR
             (''failed to move tablet path: '' @ tab_path @ ''. err: '' @ what)), w3)
      | None \<Rightarrow>
      case link_files sys snapshot_path tab_path snapshot_files [] w3 of
        (all_linked, w4) \<Rightarrow>
      if \<not> all_linked then (Returned (Error INTERNAL_ERROR ''move tablet failed''), w4) else
      case load_tablet_from_dir sys store_path tablet_id schema_hash tab_path True (loc w4) of
        (ost, l5) \<Rightarrow>
      let w5 = w4\<lparr>loc := l5, calls := calls w4 @ [LoadTabletFromDir tab_path]\<rparr> in
      if ost \<noteq> OK
      then (Returned (Error INTERNAL_ERROR
              (''failed to reload header of tablet: '' @ string_of_int64 tablet_id)), w5)
      else (Returned OK, w5))"


subsection \<open>What the manifest should hold, read off the local directory alone\<close>

text \<open>
  \<open>tablet_id_of\<close> is the tablet id that \<open>upload\<close> parses from a source directory;
  \<open>local_manifest_entry\<close> lists the files of that directory, each followed by a dot and
  the md5 sum of its bytes. Neither looks at the remote store.
\<close>

definition tablet_id_of :: "string \<Rightarrow> int64" where
  "tablet_id_of src_path = fst (snd (get_tablet_id_and_schema_hash_from_file_path src_path 0 0))"

definition local_manifest_entry :: "('l, 's) sys \<Rightarrow> string \<Rightarrow> 'l \<Rightarrow> string list" where
  "local_manifest_entry sys src_path l =
     map (\<lambda>f. f @ ''.'' @ snd (l_md5sum sys (src_path @ ''/'' @ f) l))
         (map file_name (snd (l_list sys src_path l)))"

subsection \<open>What the raw remote listing says about a name\<close>



subsection \<open>A small concrete node, store and frontend\<close>

text \<open>
  Used to run the operations on explicit inputs. Files are kept as a list of full path and
  bytes, and the bytes are written as their md5 sum. A directory exists when it is listed
  in \<open>dirs\<close>. Locks in \<open>busy_locks\<close> are held by somebody else.
\<close>

type_synonym demo_files = "(string \<times> string) list"

record demo_node =
  node_files :: demo_files
  node_dirs :: "string list"
  node_busy_locks :: "tablet_lock list"
  node_tablets :: "(int64 \<times> tablet) list"

record demo_net =
  net_objects :: demo_files
  net_frontend_reply :: rpc_result

definition demo_children :: "string \<Rightarrow> demo_files \<Rightarrow> demo_files" where
  "demo_children dir fl =
     [(drop (length dir + 1) p, v). (p, v) \<leftarrow> fl, take (length dir + 1) p = dir @ ''/'']"

definition demo_fs :: "file_system_type \<Rightarrow> (demo_node, demo_net) remote_file_system" where
  "demo_fs kind =
     \<lparr>fs_type = kind,
      fs_list = (\<lambda>dir s.
         ((OK, map (\<lambda>(n, v). \<lparr>file_name = dir @ ''/'' @ n, file_size = 0\<rparr>)
                   (demo_children dir (net_objects s))), s)),
      fs_upload = (\<lambda>local_path remote_path l s.
         case map_of (node_files l) local_path of
           None \<Rightarrow> (Error ADAPTER_ERROR ''no such local file'', s)
         | Some bytes \<Rightarrow>
             (OK, s\<lparr>net_objects := filter (\<lambda>(p, v). p \<noteq> remote_path) (net_objects s)
                                     @ [(remote_path, bytes)]\<rparr>)),
      fs_rename = (\<lambda>orig_name new_name s.
         case map_of (net_objects s) orig_name of
           None \<Rightarrow> (Error ADAPTER_ERROR ''no such remote file'', s)
         | Some bytes \<Rightarrow>
             (OK, s\<lparr>net_objects := filter (\<lambda>(p, v). p \<noteq> orig_name) (net_objects s) @ [(new_name, bytes)]\<rparr>)),
      fs_download = (\<lambda>remote_path local_path l s.
         case map_of (net_objects s) remote_path of
           None \<Rightarrow> (Error ADAPTER_ERROR ''no such remote file'', l, s)
         | Some bytes \<Rightarrow>
             (OK, l\<lparr>node_files := filter (\<lambda>(p, v). p \<noteq> local_path) (node_files l) @ [(local_path, bytes)]\<rparr>, s))\<rparr>"

text \<open>
  Modelled from the spec: the storage engine's \<open>convert_rowset_ids\<close> (olap/snapshot_manager)
  is not part of this file. The spec's glossary says a rowset id "must be rewritten when a
  snapshot is restored onto a different tablet", and the call site says it renames "the
  rowset ids and tabletid info in rowset meta" of the snapshot path it is given. Here it
  rewrites the bytes of the header file in that directory.
\<close>

definition demo_convert_rowset_ids ::
  "string \<Rightarrow> int64 \<Rightarrow> int64 \<Rightarrow> int64 \<Rightarrow> int64 \<Rightarrow> int32 \<Rightarrow> demo_node \<Rightarrow> string option \<times> demo_node" where
  "demo_convert_rowset_ids snapshot_path tablet_id replica tbl part schema_hash l =
     (None, l\<lparr>node_files := map (\<lambda>(p, v).
                 if p = snapshot_path @ ''/'' @ string_of_int64 tablet_id @ ''.hdr''
                 then (p, ''header of '' @ string_of_int64 tablet_id) else (p, v)) (node_files l)\<rparr>)"

definition demo_sys :: "(demo_node, demo_net) sys" where
  "demo_sys =
     \<lparr>snapshotLoaderReport = (\<lambda>request s. (net_frontend_reply s, s)),
      l_is_directory = (\<lambda>p l. (OK, p \<in> set (node_dirs l))),
      l_list = (\<lambda>p l. (OK, map (\<lambda>(n, v). \<lparr>file_name = n, file_size = 0\<rparr>) (demo_children p (node_files l)))),
      l_md5sum = (\<lambda>p l. case map_of (node_files l) p of
                           None \<Rightarrow> (Error IO_ERROR ''no such file'', [])
                         | Some bytes \<Rightarrow> (OK, bytes)),
      l_exists = (\<lambda>p l. p \<in> set (node_dirs l) \<or> map_of (node_files l) p \<noteq> None),
      c_remove = (\<lambda>p l. (map_of (node_files l) p \<noteq> None, l\<lparr>node_files := filter (\<lambda>(q, v). q \<noteq> p) (node_files l)\<rparr>)),
      c_link = (\<lambda>src dst l. case map_of (node_files l) src of
                                None \<Rightarrow> (False, l)
                              | Some bytes \<Rightarrow> (True, l\<lparr>node_files := node_files l @ [(dst, bytes)]\<rparr>)),
      remove_all = (\<lambda>p l. (None, l\<lparr>node_files := filter (\<lambda>(q, v). take (length p + 1) q \<noteq> p @ ''/'') (node_files l),
                                     node_dirs := removeAll p (node_dirs l)\<rparr>)),
      create_directory = (\<lambda>p l. (None, l\<lparr>node_dirs := node_dirs l @ [p]\<rparr>)),
      get_tablet = (\<lambda>tablet_id l. map_of (node_tablets l) tablet_id),
      reach_capacity_limit = (\<lambda>tab incoming l. False),
      get_store = (\<lambda>p l. True),
      convert_rowset_ids = demo_convert_rowset_ids,
      try_lock = (\<lambda>lk tab l. lk \<notin> set (node_busy_locks l)),
      load_tablet_from_dir = (\<lambda>store tablet_id schema_hash p restore l. (OK, l))\<rparr>"

definition demo_loader :: "file_system_type \<Rightarrow> (demo_node, demo_net) loader" where
  "demo_loader kind = \<lparr>job_id = 1, task_id = 2, remote_fs = Some (demo_fs kind)\<rparr>"


text \<open>
  One node with two snapshot directories of tablet 1001 and its live tablet directory; the
  first snapshot has one of its two files on the remote store already. The base-compaction
  lock is held by another actor.
\<close>

definition demo_world :: "(demo_node, demo_net) world" where
  "demo_world =
     \<lparr>loc = \<lparr>node_files = [(''/snap/a/1001/7/1001.hdr'', ''aa''),
                           (''/snap/a/1001/7/1001_0.dat'', ''bb''),
                           (''/snap/b/1001/7/1001.hdr'', ''cc'')],
             node_dirs = [''/snap/a/1001/7'', ''/snap/b/1001/7'', ''/data/1001/7''],
             node_busy_locks = [BASE_COMPACTION_LOCK],
             node_tablets = []\<rparr>,
      ext = \<lparr>net_objects = [(''/up/a/1001_0.dat.bb'', ''bb'')],
             net_frontend_reply = RpcDelivered TStatusCode_OK\<rparr>,
      calls = []\<rparr>"

text \<open>The same world with another answer of the frontend.\<close>

definition demo_reply :: "rpc_result \<Rightarrow> (demo_node, demo_net) world" where
  "demo_reply r = demo_world\<lparr>ext := (ext demo_world)\<lparr>net_frontend_reply := r\<rparr>\<rparr>"

text \<open>The live tablet 1001 of the node.\<close>

definition demo_tablet :: tablet where
  "demo_tablet = \<lparr>tablet_path = ''/data/1001/7'', data_dir_path = ''/data'',
                   replica_id = 11, table_id = 12, partition_id = 13\<rparr>"


text \<open>
  A node that is to receive tablets 1001 and 1002: of tablet 1001 it has the data file
  already, the store has header and data file; for tablet 1002 the store has nothing.
  \<open>demo_after_first_pair\<close> is that node once the header of 1001 has been fetched.
\<close>

definition demo_download_world :: "(demo_node, demo_net) world" where
  "demo_download_world =
     \<lparr>loc = \<lparr>node_files = [(''/snap/a/1001/7/1001_0.dat'', ''bb'')],
             node_dirs = [''/snap/a/1001/7'', ''/snap/c/1002/7''],
             node_busy_locks = [],
             node_tablets = [(1001, demo_tablet),
                             (1002, demo_tablet\<lparr>tablet_path := ''/data/1002/7''\<rparr>)]\<rparr>,
      ext = \<lparr>net_objects = [(''/up/__1001/1001.hdr.aa'', ''aa''),
                            (''/up/__1001/1001_0.dat.bb'', ''bb'')],
             net_frontend_reply = RpcDelivered TStatusCode_OK\<rparr>,
      calls = []\<rparr>"

definition demo_report :: call where
  "demo_report = SnapshotLoaderReport \<lparr>req_job_id = 1, req_task_id = 2, req_task_type = DOWNLOAD,
                    req_finished_num = 0, req_total_num = 0\<rparr>"

definition demo_after_first_pair :: "(demo_node, demo_net) world" where
  "demo_after_first_pair =
     demo_download_world
       \<lparr>loc := (loc demo_download_world)\<lparr>node_files :=
                  [(''/snap/a/1001/7/1001_0.dat'', ''bb''), (''/snap/a/1001/7/1001.hdr'', ''aa'')]\<rparr>,
        calls := [demo_report, FsList ''/up/__1001'',
                  FsDownload ''/up/__1001/1001.hdr.aa'' ''/snap/a/1001/7/1001.hdr'']\<rparr>"

section \<open>Properties\<close>

lemma end_with_iff_append: "end_with str match \<longleftrightarrow> (\<exists>p. str = p @ match)"
proof
  assume h: "end_with str match"
  then have "str = take (length str - length match) str @ match"
    unfolding end_with_def by (metis append_take_drop_id)
  then show "\<exists>p. str = p @ match" ..
next
  assume "\<exists>p. str = p @ match"
  then show "end_with str match"
    unfolding end_with_def by auto
qed

lemma end_with_append [simp]: "end_with (p @ m) m"
  by (simp add: end_with_iff_append)


subsection \<open>Evaluation rules\<close>

lemma string_of_nat_small: "n < 10 \<Longrightarrow> string_of_nat n = [digit_char n]"
  by (simp add: string_of_nat.simps)

lemma string_of_nat_large:
  "\<not> n < 10 \<Longrightarrow> string_of_nat n = string_of_nat (n div 10) @ [digit_char (n mod 10)]"
  by (subst string_of_nat.simps) simp

lemmas show_simps =
  string_of_int64_def string_of_int_def string_of_nat_small string_of_nat_large digit_char_def

lemma end_with_hdr_idx: "end_with s ''.idx'' \<Longrightarrow> \<not> end_with s ''.hdr''"
  unfolding end_with_def by auto

lemma end_with_hdr_dat: "end_with s ''.dat'' \<Longrightarrow> \<not> end_with s ''.hdr''"
  unfolding end_with_def by auto

subsection \<open>File-name rewriting\<close>

text \<open>
  C7. For every file name and every new tablet id, \<open>_replace_tablet_id\<close> returns
  \<open><new_tablet_id>.hdr\<close> when the name ends in \<open>.hdr\<close>, returns the name unchanged when
  it ends in \<open>.idx\<close> or \<open>.dat\<close>, and fails with an "invalid tablet file name" error for
  any other name.
\<close>

theorem replace_tablet_id_by_suffix:
  "replace_tablet_id name tablet_id =
     (if \<exists>p. name = p @ ''.hdr'' then (OK, Some (string_of_int64 tablet_id @ ''.hdr''))
      else if (\<exists>p. name = p @ ''.idx'') \<or> (\<exists>p. name = p @ ''.dat'') then (OK, Some name)
      else (Error INTERNAL_ERROR (''invalid tablet file name: '' @ name), None))"
  unfolding replace_tablet_id_def end_with_iff_append by simp

theorem replace_tablet_id_by_suffix_witness:
  "replace_tablet_id ''10007.hdr'' 3001 = (OK, Some ''3001.hdr'')
   \<and> replace_tablet_id ''10007_2_2_0_0.dat'' 3001 = (OK, Some ''10007_2_2_0_0.dat'')
   \<and> replace_tablet_id ''10007_2_2_0_0.idx'' 3001 = (OK, Some ''10007_2_2_0_0.idx'')
   \<and> replace_tablet_id ''10007.txt'' 3001
       = (Error INTERNAL_ERROR ''invalid tablet file name: 10007.txt'', None)"
  using replace_tablet_id_by_suffix [of "''10007.hdr''" 3001]
    replace_tablet_id_by_suffix [of "''10007_2_2_0_0.dat''" 3001]
    replace_tablet_id_by_suffix [of "''10007_2_2_0_0.idx''" 3001]
    replace_tablet_id_by_suffix [of "''10007.txt''" 3001]
  by (simp add: show_simps replace_tablet_id_def end_with_def)

text \<open>
  C8, as stated: for every accepted name, rewriting with the local id \<open>L\<close> and then with
  the remote id \<open>R\<close> gives the name back. It fails for an accepted \<open>.hdr\<close> name that is
  not \<open><R>.hdr\<close>: the whole name is replaced, so \<open>10008.hdr\<close> comes back as
  \<open>10007.hdr\<close> for \<open>R = 10007\<close>.
\<close>

theorem rewrite_roundtrip_counterexample:
  "fst (replace_tablet_id ''10008.hdr'' 3001) = OK
   \<and> rewrite_there_and_back ''10008.hdr'' 3001 10007 = (OK, Some ''10007.hdr'')
   \<and> rewrite_there_and_back ''10008.hdr'' 3001 10007 \<noteq> (OK, Some ''10008.hdr'')"
  by (simp add: rewrite_there_and_back_def replace_tablet_id_def end_with_def show_simps)

text \<open>
  C8, amended: for any local tablet id \<open>L\<close> and remote tablet id \<open>R\<close>, rewriting with
  \<open>L\<close> and then with \<open>R\<close> gives the name back for every name ending in \<open>.idx\<close> or
  \<open>.dat\<close>, and for the header name \<open><R>.hdr\<close> of the remote tablet; every other
  accepted \<open>.hdr\<close> name comes back as \<open><R>.hdr\<close>. These are the only names that come
  back unchanged.
\<close>

theorem rewrite_roundtrip:
  "(end_with name ''.hdr'' \<longrightarrow>
      rewrite_there_and_back name L R = (OK, Some (string_of_int64 R @ ''.hdr'')))
   \<and> (end_with name ''.idx'' \<or> end_with name ''.dat'' \<longrightarrow>
      rewrite_there_and_back name L R = (OK, Some name))
   \<and> (rewrite_there_and_back name L R = (OK, Some name)
        \<longleftrightarrow> end_with name ''.idx'' \<or> end_with name ''.dat'' \<or> name = string_of_int64 R @ ''.hdr'')"
proof -
  have hdr: "rewrite_there_and_back name L R = (OK, Some (string_of_int64 R @ ''.hdr''))"
    if "end_with name ''.hdr''"
    using that by (simp add: rewrite_there_and_back_def replace_tablet_id_def)
  have data: "rewrite_there_and_back name L R = (OK, Some name)"
    if "end_with name ''.idx'' \<or> end_with name ''.dat''"
    using that
    by (auto simp: rewrite_there_and_back_def replace_tablet_id_def
             dest: end_with_hdr_idx end_with_hdr_dat)
  have other: "fst (rewrite_there_and_back name L R) \<noteq> OK"
    if "\<not> end_with name ''.hdr''" "\<not> end_with name ''.idx''" "\<not> end_with name ''.dat''"
    using that by (simp add: rewrite_there_and_back_def replace_tablet_id_def)
  have iff: "rewrite_there_and_back name L R = (OK, Some name)
        \<longleftrightarrow> end_with name ''.idx'' \<or> end_with name ''.dat'' \<or> name = string_of_int64 R @ ''.hdr''"
  proof (cases "end_with name ''.hdr''")
    case True
    then have "\<not> end_with name ''.idx''" "\<not> end_with name ''.dat''"
      using end_with_hdr_idx end_with_hdr_dat by blast+
    with hdr [OF True] show ?thesis by auto
  next
    case False
    then have "name \<noteq> string_of_int64 R @ ''.hdr''" by auto
    with False data other show ?thesis by (metis fst_conv)
  qed
  from hdr data iff show ?thesis by blast
qed

theorem rewrite_roundtrip_witness:
  "rewrite_there_and_back ''10007.hdr'' 3001 10007 = (OK, Some ''10007.hdr'')
   \<and> rewrite_there_and_back ''10008.hdr'' 3001 10007 = (OK, Some ''10007.hdr'')
   \<and> rewrite_there_and_back ''10007_2_2_0_0.dat'' 3001 10007 = (OK, Some ''10007_2_2_0_0.dat'')
   \<and> rewrite_there_and_back ''10007_2_2_0_0.idx'' 3001 10007 = (OK, Some ''10007_2_2_0_0.idx'')
   \<and> rewrite_there_and_back ''10007.txt'' 3001 10007 \<noteq> (OK, Some ''10007.txt'')"
proof -
  have s: "string_of_int64 10007 = ''10007''" by (simp add: show_simps)
  have e: "end_with ''10007.hdr'' ''.hdr''" "end_with ''10008.hdr'' ''.hdr''"
    "end_with ''10007_2_2_0_0.dat'' ''.dat''" "end_with ''10007_2_2_0_0.idx'' ''.idx''"
    "\<not> end_with ''10007.txt'' ''.idx''" "\<not> end_with ''10007.txt'' ''.dat''"
    by (simp_all add: end_with_def)
  show ?thesis
    using rewrite_roundtrip [of "''10007.hdr''" 3001 10007] rewrite_roundtrip [of "''10008.hdr''" 3001 10007]
      rewrite_roundtrip [of "''10007_2_2_0_0.dat''" 3001 10007] rewrite_roundtrip [of "''10007_2_2_0_0.idx''" 3001 10007]
      rewrite_roundtrip [of "''10007.txt''" 3001 10007]
    by (simp add: s e)
qed

subsection \<open>Progress and cancellation reporter\<close>

text \<open>
  C5. \<open>_report_every\<close> returns OK when the progress RPC fails at the transport level, and
  returns the cancellation error exactly when the RPC is delivered with status code
  CANCELLED; every other delivered status code yields OK as well, as does a call below
  the threshold, which sends nothing.
\<close>

theorem report_every_cancel_only:
  fixes sys :: "('l, 's) sys"
  defines "rpc \<equiv> \<lambda>ld type finished_num total_num w. fst (snapshotLoaderReport sys
         \<lparr>req_job_id = job_id ld, req_task_id = task_id ld, req_task_type = type,
          req_finished_num = finished_num, req_total_num = total_num\<rparr> (ext w))"
  shows "(report_threshold < counter + 1 \<and> rpc ld type finished_num total_num w = RpcFailed e
           \<longrightarrow> fst (report_every sys ld report_threshold counter finished_num total_num type w) = OK)
       \<and> (fst (report_every sys ld report_threshold counter finished_num total_num type w)
             = Error CANCELLED ''Cancelled''
           \<longleftrightarrow> report_threshold < counter + 1
               \<and> rpc ld type finished_num total_num w = RpcDelivered TStatusCode_CANCELLED)
       \<and> (fst (report_every sys ld report_threshold counter finished_num total_num type w)
             \<noteq> Error CANCELLED ''Cancelled''
           \<longrightarrow> fst (report_every sys ld report_threshold counter finished_num total_num type w) = OK)"
  unfolding rpc_def report_every_def
  by (auto simp: Let_def split: prod.splits rpc_result.splits)

theorem report_every_cancel_only_witness:
  "fst (report_every demo_sys (demo_loader S3) 0 1 0 0 UPLOAD
          (demo_reply (RpcFailed (Error ADAPTER_ERROR ''connection refused'')))) = OK
   \<and> fst (report_every demo_sys (demo_loader S3) 0 1 0 0 UPLOAD
          (demo_reply (RpcDelivered TStatusCode_CANCELLED))) = Error CANCELLED ''Cancelled''
   \<and> fst (report_every demo_sys (demo_loader S3) 0 1 0 0 UPLOAD
          (demo_reply (RpcDelivered (TStatusCode_OTHER 7)))) = OK
   \<and> fst (report_every demo_sys (demo_loader S3) 10 1 0 0 UPLOAD
          (demo_reply (RpcDelivered TStatusCode_CANCELLED))) = OK"
  using report_every_cancel_only [where sys = demo_sys and ld = "demo_loader S3" and report_threshold = 0
      and counter = 1 and finished_num = 0 and total_num = 0 and type = UPLOAD
      and w = "demo_reply (RpcFailed (Error ADAPTER_ERROR ''connection refused''))"
      and e = "Error ADAPTER_ERROR ''connection refused''"]
    report_every_cancel_only [where sys = demo_sys and ld = "demo_loader S3" and report_threshold = 0
      and counter = 1 and finished_num = 0 and total_num = 0 and type = UPLOAD
      and w = "demo_reply (RpcDelivered TStatusCode_CANCELLED)"]
    report_every_cancel_only [where sys = demo_sys and ld = "demo_loader S3" and report_threshold = 0
      and counter = 1 and finished_num = 0 and total_num = 0 and type = UPLOAD
      and w = "demo_reply (RpcDelivered (TStatusCode_OTHER 7))"]
    report_every_cancel_only [where sys = demo_sys and ld = "demo_loader S3" and report_threshold = 10
      and counter = 1 and finished_num = 0 and total_num = 0 and type = UPLOAD
      and w = "demo_reply (RpcDelivered TStatusCode_CANCELLED)"]
  by (simp add: demo_sys_def demo_reply_def demo_world_def)



subsection \<open>Upload: what touches the local node, and what the manifest collects\<close>

lemma report_every_loc: "report_every sys ld t c f n ty w = (st, c', w') \<Longrightarrow> loc w' = loc w"
  by (auto simp: report_every_def Let_def split: prod.splits rpc_result.splits if_splits)

lemma upload_with_checksum_loc:
  "upload_with_checksum fs a b c w = (res, w') \<Longrightarrow> loc w' = loc w"
  by (cases "fs_type fs")
     (auto simp: upload_with_checksum_def do_upload_def do_rename_def Let_def
           split: prod.splits if_splits)

lemma list_with_checksum_loc:
  "list_with_checksum fs dir acc w = (st, rf, w') \<Longrightarrow> loc w' = loc w"
  by (auto simp: list_with_checksum_def Let_def split: prod.splits if_splits)

lemma upload_files_loc:
  "upload_files sys ld fs src dest rf files lfwc rc fin tot w = (res, lfwc', rc', w')
   \<Longrightarrow> loc w' = loc w"
proof (induction files arbitrary: lfwc rc w)
  case Nil
  then show ?case by simp
next
  case (Cons f files)
  then show ?case
    by (auto simp: Let_def split: prod.splits if_splits
             dest!: report_every_loc upload_with_checksum_loc)
qed

lemma upload_files_manifest:
  "upload_files sys ld fs src dest rf files lfwc rc fin tot w = (Returned OK, lfwc', rc', w')
   \<Longrightarrow> lfwc' = lfwc @ map (\<lambda>f. f @ ''.'' @ snd (l_md5sum sys (src @ ''/'' @ f) (loc w))) files"
proof (induction files arbitrary: lfwc rc w)
  case Nil
  then show ?case by simp
next
  case (Cons f files)
  obtain st rc1 w1 where r: "report_every sys ld 10 rc fin tot UPLOAD w = (st, rc1, w1)"
    by (cases "report_every sys ld 10 rc fin tot UPLOAD w") auto
  then have l1: "loc w1 = loc w" by (rule report_every_loc)
  obtain st2 m where m: "l_md5sum sys (src @ ''/'' @ f) (loc w) = (st2, m)"
    by (cases "l_md5sum sys (src @ ''/'' @ f) (loc w)") auto
  obtain res w2 where u: "upload_with_checksum fs (src @ ''/'' @ f) (dest @ ''/'' @ f) m w1 = (res, w2)"
    by (cases "upload_with_checksum fs (src @ ''/'' @ f) (dest @ ''/'' @ f) m w1") auto
  then have l2: "loc w2 = loc w" using l1 upload_with_checksum_loc by metis
  from Cons.prems r m u l1 have ok: "st = OK" "st2 = OK"
    by (auto simp: Let_def split: if_splits)
  show ?case
  proof (cases "need_upload rf f m")
    case False
    with Cons.prems r m ok l1
    have "upload_files sys ld fs src dest rf files (lfwc @ [f @ ''.'' @ m]) rc1 fin tot w1
            = (Returned OK, lfwc', rc', w')"
      by (simp add: Let_def)
    from Cons.IH [OF this] show ?thesis using l1 m by simp
  next
    case True
    with Cons.prems r m ok l1 u
    have "upload_files sys ld fs src dest rf files (lfwc @ [f @ ''.'' @ m]) rc1 fin tot w2
            = (Returned OK, lfwc', rc', w')"
      by (simp add: Let_def split: if_splits)
    from Cons.IH [OF this] show ?thesis using l2 m by simp
  qed
qed

lemma upload_tablets_manifest:
  "upload_tablets sys ld fs pairs rc fin tot tf w = (Returned OK, tf', w')
   \<Longrightarrow> tf' = map_of (map (\<lambda>(src, dest). (tablet_id_of src, local_manifest_entry sys src (loc w))) pairs) ++ tf"
proof (induction pairs arbitrary: rc fin tf w)
  case Nil
  then show ?case by simp
next
  case (Cons iter pairs)
  obtain src dest where it: "iter = (src, dest)" by (cases iter) auto
  obtain st tid sh where p: "get_tablet_id_and_schema_hash_from_file_path src 0 0 = (st, tid, sh)"
    by (cases "get_tablet_id_and_schema_hash_from_file_path src 0 0") auto
  obtain st2 rfiles w1 where l: "list_with_checksum fs dest [] w = (st2, rfiles, w1)"
    by (cases "list_with_checksum fs dest [] w") auto
  then have l1: "loc w1 = loc w" by (rule list_with_checksum_loc)
  obtain st3 lfiles where g: "get_existing_files_from_local sys src [] (loc w) = (st3, lfiles)"
    by (cases "get_existing_files_from_local sys src [] (loc w)") auto
  obtain res lfwc rc2 w2 where u:
    "upload_files sys ld fs src dest rfiles lfiles [] rc fin tot w1 = (res, lfwc, rc2, w2)"
    by (cases "upload_files sys ld fs src dest rfiles lfiles [] rc fin tot w1") auto
  then have l2: "loc w2 = loc w" using l1 upload_files_loc by metis
  from Cons.prems it p l g u l1 have ok: "st = OK" "st2 = OK" "st3 = OK" "res = Returned OK"
    by (auto simp: Let_def split: if_splits)
  from Cons.prems it p l g u l1 ok
  have rest: "upload_tablets sys ld fs pairs rc2 (fin + 1) tot (manifest_emplace tid lfwc tf) w2
           = (Returned OK, tf', w')"
    by (simp add: Let_def)
  from g ok have lf: "lfiles = map file_name (snd (l_list sys src (loc w)))"
    by (auto simp: get_existing_files_from_local_def Let_def split: prod.splits if_splits)
  from u ok upload_files_manifest [of sys ld fs src dest rfiles lfiles "[]" rc fin tot w1 lfwc rc2 w2]
  have "lfwc = local_manifest_entry sys src (loc w)"
    by (simp add: local_manifest_entry_def lf l1)
  moreover have "tid = tablet_id_of src" by (simp add: tablet_id_of_def p)
  ultimately show ?case
    using Cons.IH [OF rest] l2 it
    by (auto simp: manifest_emplace_def map_add_def fun_eq_iff split: option.splits)
qed

subsection \<open>Two-phase and one-phase upload\<close>

text \<open>
  C1. For every file that upload transfers: if the remote filesystem kind is HDFS or
  broker, the file is first uploaded to \<open><remote>.part\<close> and then renamed to
  \<open><remote>.<md5>\<close>, the rename deciding the result (it is not attempted when the upload
  fails, whose status is then returned); if the kind is S3, it is uploaded directly to
  \<open><remote>.<md5>\<close>; any other kind is a fatal error, thrown with the store and the call
  record untouched. The store is left as the driver's upload and rename leave it.
\<close>

theorem upload_with_checksum_by_kind:
  fixes fs :: "('l, 's) remote_file_system" and remote_path checksum :: string
  defines "part \<equiv> remote_path @ ''.part''"
  defines "final \<equiv> remote_path @ ''.'' @ checksum"
  shows "(fs_type fs = HDFS \<or> fs_type fs = BROKER \<longrightarrow>
            upload_with_checksum fs local_path remote_path checksum w =
              (case fs_upload fs local_path part (loc w) (ext w) of
                 (st, s1) \<Rightarrow>
                   if st \<noteq> OK
                   then (Returned st, w\<lparr>ext := s1, calls := calls w @ [FsUpload local_path part]\<rparr>)
                   else case fs_rename fs part final s1 of
                          (st2, s2) \<Rightarrow>
                            (Returned st2,
                             w\<lparr>ext := s2,
                               calls := calls w @ [FsUpload local_path part, FsRename part final]\<rparr>)))
       \<and> (fs_type fs = S3 \<longrightarrow>
            upload_with_checksum fs local_path remote_path checksum w =
              (case fs_upload fs local_path final (loc w) (ext w) of
                 (st, s1) \<Rightarrow>
                   (Returned st, w\<lparr>ext := s1, calls := calls w @ [FsUpload local_path final]\<rparr>)))
       \<and> (fs_type fs \<noteq> HDFS \<and> fs_type fs \<noteq> BROKER \<and> fs_type fs \<noteq> S3 \<longrightarrow>
            (\<exists>n. fs_type fs = OTHER_FS n
                 \<and> upload_with_checksum fs local_path remote_path checksum w
                     = (Thrown (Error FATAL_ERROR (''unknown fs type: '' @ string_of_nat n)), w)))"
proof (cases "fs_type fs")
  case S3
  then show ?thesis
    unfolding final_def
    by (auto simp: upload_with_checksum_def do_upload_def Let_def split: prod.splits)
next
  case HDFS
  then show ?thesis
    unfolding part_def final_def
    by (auto simp: upload_with_checksum_def do_upload_def do_rename_def Let_def split: prod.splits)
next
  case BROKER
  then show ?thesis
    unfolding part_def final_def
    by (auto simp: upload_with_checksum_def do_upload_def do_rename_def Let_def split: prod.splits)
next
  case (OTHER_FS n)
  then show ?thesis
    by (simp add: upload_with_checksum_def Let_def)
qed

theorem upload_with_checksum_by_kind_witness:
  "upload_with_checksum (demo_fs HDFS) ''/snap/a/1001/7/1001.hdr'' ''/up/a/1001.hdr'' ''aa'' demo_world
     = (Returned OK,
        demo_world\<lparr>ext := (ext demo_world)\<lparr>net_objects :=
                       [(''/up/a/1001_0.dat.bb'', ''bb''), (''/up/a/1001.hdr.aa'', ''aa'')]\<rparr>,
                    calls := [FsUpload ''/snap/a/1001/7/1001.hdr'' ''/up/a/1001.hdr.part'',
                              FsRename ''/up/a/1001.hdr.part'' ''/up/a/1001.hdr.aa'']\<rparr>)
   \<and> upload_with_checksum (demo_fs BROKER) ''/snap/a/1001/7/1001.hdr'' ''/up/a/1001.hdr'' ''aa'' demo_world
     = (Returned OK,
        demo_world\<lparr>ext := (ext demo_world)\<lparr>net_objects :=
                       [(''/up/a/1001_0.dat.bb'', ''bb''), (''/up/a/1001.hdr.aa'', ''aa'')]\<rparr>,
                    calls := [FsUpload ''/snap/a/1001/7/1001.hdr'' ''/up/a/1001.hdr.part'',
                              FsRename ''/up/a/1001.hdr.part'' ''/up/a/1001.hdr.aa'']\<rparr>)
   \<and> upload_with_checksum (demo_fs HDFS) ''/snap/a/1001/7/missing'' ''/up/a/missing'' ''aa'' demo_world
     = (Returned (Error ADAPTER_ERROR ''no such local file''),
        demo_world\<lparr>calls := [FsUpload ''/snap/a/1001/7/missing'' ''/up/a/missing.part'']\<rparr>)
   \<and> upload_with_checksum (demo_fs S3) ''/snap/a/1001/7/1001.hdr'' ''/up/a/1001.hdr'' ''aa'' demo_world
     = (Returned OK,
        demo_world\<lparr>ext := (ext demo_world)\<lparr>net_objects :=
                       [(''/up/a/1001_0.dat.bb'', ''bb''), (''/up/a/1001.hdr.aa'', ''aa'')]\<rparr>,
                    calls := [FsUpload ''/snap/a/1001/7/1001.hdr'' ''/up/a/1001.hdr.aa'']\<rparr>)
   \<and> upload_with_checksum (demo_fs (OTHER_FS 0)) ''/snap/a/1001/7/1001.hdr'' ''/up/a/1001.hdr'' ''aa'' demo_world
     = (Thrown (Error FATAL_ERROR ''unknown fs type: 0''), demo_world)"
proof -
  have kinds: "fs_type (demo_fs kind) = kind" for kind
    by (simp add: demo_fs_def)
  have n0: "string_of_nat 0 = ''0''" by (simp add: string_of_nat_small digit_char_def)
  show ?thesis
    using upload_with_checksum_by_kind [of "demo_fs HDFS" "''/snap/a/1001/7/1001.hdr''" "''/up/a/1001.hdr''" "''aa''" demo_world]
      upload_with_checksum_by_kind [of "demo_fs BROKER" "''/snap/a/1001/7/1001.hdr''" "''/up/a/1001.hdr''" "''aa''" demo_world]
      upload_with_checksum_by_kind [of "demo_fs HDFS" "''/snap/a/1001/7/missing''" "''/up/a/missing''" "''aa''" demo_world]
      upload_with_checksum_by_kind [of "demo_fs S3" "''/snap/a/1001/7/1001.hdr''" "''/up/a/1001.hdr''" "''aa''" demo_world]
      upload_with_checksum_by_kind [of "demo_fs (OTHER_FS 0)" "''/snap/a/1001/7/1001.hdr''" "''/up/a/1001.hdr''" "''aa''" demo_world]
    unfolding kinds
    by (simp add: n0) (simp add: demo_fs_def demo_world_def)
qed


subsection \<open>Runs on the concrete node\<close>

lemma extract_long_7: "extract_long ''7'' = Some 7"
  by (simp add: extract_long_def isspace_def isdigit_def Let_def decimal_value_def digit_val_def)
lemma extract_long_1001: "extract_long ''1001/'' = Some 1001"
  by (simp add: extract_long_def isspace_def isdigit_def Let_def decimal_value_def digit_val_def)
lemma parse_snap_a: "get_tablet_id_and_schema_hash_from_file_path ''/snap/a/1001/7'' 0 0 = (OK, 1001, 7)"
  by (simp add: get_tablet_id_and_schema_hash_from_file_path_def find_last_of_def
        extract_int32_def extract_int64_def extract_long_7 extract_long_1001)
lemma parse_snap_b: "get_tablet_id_and_schema_hash_from_file_path ''/snap/b/1001/7'' 0 0 = (OK, 1001, 7)"
  by (simp add: get_tablet_id_and_schema_hash_from_file_path_def find_last_of_def
        extract_int32_def extract_int64_def extract_long_7 extract_long_1001)

lemmas demo_simps = demo_loader_def demo_sys_def demo_fs_def demo_world_def demo_children_def
lemmas upload_simps = upload_def report_every_def list_with_checksum_def path_filename_def find_last_of_def
   get_existing_files_from_local_def need_upload_def upload_with_checksum_def do_upload_def do_rename_def
   manifest_emplace_def Let_def

lemma demo_upload_two:
  "upload demo_sys (demo_loader S3) [(''/snap/a/1001/7'', ''/up/a''), (''/snap/b/1001/7'', ''/up/b'')]
      Map.empty demo_world =
   (Returned OK, [1001 \<mapsto> [''1001.hdr.aa'', ''1001_0.dat.bb'']],
    demo_world\<lparr>ext := \<lparr>net_objects = [(''/up/a/1001_0.dat.bb'', ''bb''), (''/up/a/1001.hdr.aa'', ''aa''),
                                        (''/up/b/1001.hdr.cc'', ''cc'')],
                         net_frontend_reply = RpcDelivered TStatusCode_OK\<rparr>,
                calls := [SnapshotLoaderReport \<lparr>req_job_id = 1, req_task_id = 2, req_task_type = UPLOAD,
                            req_finished_num = 0, req_total_num = 0\<rparr>,
                          FsList ''/up/a'', FsUpload ''/snap/a/1001/7/1001.hdr'' ''/up/a/1001.hdr.aa'',
                          FsList ''/up/b'', FsUpload ''/snap/b/1001/7/1001.hdr'' ''/up/b/1001.hdr.cc'']\<rparr>)"
  by (simp add: demo_simps upload_simps parse_snap_a parse_snap_b)

lemma demo_upload_one:
  "upload demo_sys (demo_loader S3) [(''/snap/a/1001/7'', ''/up/a'')] Map.empty demo_world =
   (Returned OK, [1001 \<mapsto> [''1001.hdr.aa'', ''1001_0.dat.bb'']],
    demo_world\<lparr>ext := \<lparr>net_objects = [(''/up/a/1001_0.dat.bb'', ''bb''), (''/up/a/1001.hdr.aa'', ''aa'')],
                         net_frontend_reply = RpcDelivered TStatusCode_OK\<rparr>,
                calls := [SnapshotLoaderReport \<lparr>req_job_id = 1, req_task_id = 2, req_task_type = UPLOAD,
                            req_finished_num = 0, req_total_num = 0\<rparr>,
                          FsList ''/up/a'', FsUpload ''/snap/a/1001/7/1001.hdr'' ''/up/a/1001.hdr.aa'']\<rparr>)"
  by (simp add: demo_simps upload_simps parse_snap_a)


subsection \<open>The per-file upload decision\<close>

lemma map_emplace_keys: "fst ` set (map_emplace k v m) = insert k (fst ` set m)"
proof (induction m)
  case Nil
  then show ?case by simp
next
  case (Cons x m)
  obtain a b where x: "x = (a, b)" by (cases x)
  show ?case
    unfolding x using Cons.IH by (cases "k = a"; cases "k < a") (simp_all add: insert_commute)
qed

lemma map_emplace_sorted:
  "sorted (map fst m) \<Longrightarrow> sorted (map fst (map_emplace k v m))"
proof (induction m)
  case Nil
  then show ?case by simp
next
  case (Cons x m)
  obtain a b where x: "x = (a, b)" by (cases x)
  from Cons.prems x have s: "sorted (map fst m)" and le: "\<forall>y \<in> fst ` set m. a \<le> y"
    by simp_all
  show ?case
  proof (cases "k = a")
    case True
    with Cons.prems x show ?thesis by simp
  next
    case ne: False
    show ?thesis
    proof (cases "k < a")
      case True
      with Cons.prems x show ?thesis by auto
    next
      case False
      with ne have "a \<le> k" by simp
      with False ne x le Cons.IH [OF s] show ?thesis
        by (simp add: map_emplace_keys)
    qed
  qed
qed

lemma map_of_sorted_less:
  "sorted (map fst m) \<Longrightarrow> m = (a, b) # m' \<Longrightarrow> k < a \<Longrightarrow> map_of m k = None"
  by (auto simp: map_of_eq_None_iff)


lemma index_with_checksum_sorted:
  "sorted (map fst acc) \<Longrightarrow> sorted (map fst (index_with_checksum listing acc))"
  by (induction listing arbitrary: acc) (auto simp: Let_def map_emplace_sorted split: option.splits)













subsection \<open>The upload manifest\<close>

text \<open>
  C9, as stated: the manifest of a successful upload maps each source directory's tablet
  id to the files of that directory. It fails when two source directories carry the same
  tablet id: \<open>emplace\<close> keeps the entry of the first one, so the files of
  \<open>/snap/b/1001/7\<close> are not what the manifest holds under 1001.
\<close>

theorem upload_manifest_counterexample:
  "fst (upload demo_sys (demo_loader S3)
          [(''/snap/a/1001/7'', ''/up/a''), (''/snap/b/1001/7'', ''/up/b'')] Map.empty demo_world)
     = Returned OK
   \<and> tablet_id_of ''/snap/b/1001/7'' = 1001
   \<and> local_manifest_entry demo_sys ''/snap/b/1001/7'' (loc demo_world) = [''1001.hdr.cc'']
   \<and> fst (snd (upload demo_sys (demo_loader S3)
          [(''/snap/a/1001/7'', ''/up/a''), (''/snap/b/1001/7'', ''/up/b'')] Map.empty demo_world)) 1001
     = Some [''1001.hdr.aa'', ''1001_0.dat.bb'']"
  unfolding demo_upload_two
  by (simp add: tablet_id_of_def parse_snap_b local_manifest_entry_def demo_simps)


text \<open>
  C9, amended: the manifest returned by a successful upload is the output map it was given,
  extended, for every tablet id not yet in it, by the file list of the first source
  directory (in iteration order) with that tablet id: all files present in that local
  directory, each suffixed with a dot and the md5 of its local bytes, whether the file was
  transferred or skipped. It is determined by the local directories alone, not by the
  remote store. When the output map starts empty and the tablet ids of the source
  directories are pairwise different, every source directory's tablet id is mapped to that
  directory's own list.
\<close>

theorem upload_manifest_local_only:
  assumes run: "upload sys ld src_to_dest_path tablet_files w = (Returned OK, tablet_files', w')"
  defines "entries \<equiv> map (\<lambda>(src, dest). (tablet_id_of src, local_manifest_entry sys src (loc w))) src_to_dest_path"
  shows "tablet_files' = map_of entries ++ tablet_files
       \<and> (tablet_files = Map.empty \<and> distinct (map fst entries) \<longrightarrow>
            (\<forall>(src, dest) \<in> set src_to_dest_path.
               tablet_files' (tablet_id_of src) = Some (local_manifest_entry sys src (loc w))))"
proof -
  from run obtain fs where fs: "remote_fs ld = Some fs"
    by (auto simp: upload_def split: option.splits)
  obtain st c1 w1 where r: "report_every sys ld 0 1 0 0 UPLOAD w = (st, c1, w1)"
    by (cases "report_every sys ld 0 1 0 0 UPLOAD w") auto
  then have l1: "loc w1 = loc w" by (rule report_every_loc)
  from run fs r have
    "upload_tablets sys ld fs src_to_dest_path 0 0 (int (length src_to_dest_path)) tablet_files w1
       = (Returned OK, tablet_files', w')"
    by (auto simp: upload_def Let_def split: if_splits)
  from upload_tablets_manifest [OF this] l1
  have eq: "tablet_files' = map_of entries ++ tablet_files"
    by (simp add: entries_def)
  have "tablet_files' (tablet_id_of src) = Some (local_manifest_entry sys src (loc w))"
    if e: "tablet_files = Map.empty" and d: "distinct (map fst entries)"
      and m: "(src, dest) \<in> set src_to_dest_path" for src dest
  proof -
    from m have "(tablet_id_of src, local_manifest_entry sys src (loc w)) \<in> set entries"
      unfolding entries_def by force
    with d have "map_of entries (tablet_id_of src) = Some (local_manifest_entry sys src (loc w))"
      by simp
    with eq e show ?thesis by simp
  qed
  with eq show ?thesis by blast
qed

theorem upload_manifest_local_only_witness:
  "fst (snd (upload demo_sys (demo_loader S3) [(''/snap/a/1001/7'', ''/up/a'')] Map.empty demo_world))
     = [1001 \<mapsto> [''1001.hdr.aa'', ''1001_0.dat.bb'']]
   \<and> fst (snd (upload demo_sys (demo_loader S3) [(''/snap/a/1001/7'', ''/up/a'')] Map.empty demo_world))
        (tablet_id_of ''/snap/a/1001/7'')
        = Some (local_manifest_entry demo_sys ''/snap/a/1001/7'' (loc demo_world))"
  using upload_manifest_local_only [OF demo_upload_one] unfolding demo_upload_one
  by (simp add: tablet_id_of_def parse_snap_a)



subsection \<open>Extracting tablet id and schema hash from a local path\<close>

lemma find_last_of_None_iff: "find_last_of s c None = None \<longleftrightarrow> c \<notin> set s"
  by (auto simp: find_last_of_def Let_def filter_empty_conv in_set_conv_nth)

lemma find_last_of_last_split:
  assumes "c \<notin> set seg"
  shows "find_last_of (pre @ c # seg) c None = Some (length pre)"
proof -
  define s where "s = pre @ c # seg"
  define n where "n = length s"
  have len: "n = length pre + Suc (length seg)" by (simp add: n_def s_def)
  have "[0..<length pre + Suc (length seg)]
          = [0..<length pre] @ [length pre..<length pre + Suc (length seg)]"
    by (rule upt_add_eq_append) simp
  also have "[length pre..<length pre + Suc (length seg)]
          = length pre # [Suc (length pre)..<length pre + Suc (length seg)]"
    by (rule upt_conv_Cons) simp
  finally have upt: "[0..<n] = [0..<length pre] @ length pre # [Suc (length pre)..<n]"
    unfolding len .
  have tl: "filter (\<lambda>i. s ! i = c) [Suc (length pre)..<n] = []"
    unfolding filter_empty_conv
  proof
    fix i
    assume "i \<in> set [Suc (length pre)..<n]"
    then have lo: "Suc (length pre) \<le> i" and hi: "i < length pre + Suc (length seg)"
      by (simp_all only: set_upt atLeastLessThan_iff len)
    from lo have "s ! i = seg ! (i - Suc (length pre))"
      by (simp add: s_def nth_append nth_Cons')
    moreover from lo hi have "i - Suc (length pre) < length seg" by simp
    ultimately show "\<not> s ! i = c" using assms by (metis nth_mem)
  qed
  have mid: "s ! length pre = c" by (simp add: s_def)
  have "filter (\<lambda>i. s ! i = c) [0..<n] = filter (\<lambda>i. s ! i = c) [0..<length pre] @ [length pre]"
    unfolding upt by (simp add: tl mid)
  then have "find_last_of s c None = Some (length pre)"
    by (simp add: find_last_of_def Let_def flip: n_def)
  then show ?thesis by (simp add: s_def)
qed

lemma find_last_of_Some_take:
  assumes "q < length s"
  shows "find_last_of s c (Some q) = find_last_of (take (q + 1) s) c None"
proof -
  from assms have n: "min (q + 1) (length s) = q + 1" by simp
  have "filter (\<lambda>i. s ! i = c) [0..<q + 1] = filter (\<lambda>i. take (q + 1) s ! i = c) [0..<q + 1]"
    by (rule filter_cong) auto
  then show ?thesis
    using assms by (simp add: find_last_of_def Let_def n min_absorb2)
qed

lemma last_split_unique:
  fixes c :: char
  assumes "pre @ c # seg = pre' @ c # seg'" "c \<notin> set seg" "c \<notin> set seg'"
  shows "pre = pre' \<and> seg = seg'"
proof -
  have "find_last_of (pre @ c # seg) c None = Some (length pre)"
    using assms(2) by (rule find_last_of_last_split)
  moreover have "find_last_of (pre' @ c # seg') c None = Some (length pre')"
    using assms(3) by (rule find_last_of_last_split)
  ultimately have "length pre = length pre'" using assms(1) by simp
  with assms(1) show ?thesis by simp
qed


text \<open>
  C6. Extraction is to return a path-parse error for every malformed path, in particular
  when the last two segments are not both numbers. The function does not do that: the
  state of the two string streams is never looked at, so the error return is reached only
  when a separator is missing. \<open>/snapshot/abc/def\<close> is accepted, and both numbers come out
  as 0.
\<close>

theorem path_parse_accepts_non_numeric:
  "get_tablet_id_and_schema_hash_from_file_path ''/snapshot/abc/def'' 0 0 = (OK, 0, 0)"
proof -
  have "extract_long ''def'' = Some 0" and "extract_long ''abc/'' = Some 0"
    by (simp_all add: extract_long_def isspace_def isdigit_def Let_def)
  then show ?thesis
    by (simp add: get_tablet_id_and_schema_hash_from_file_path_def find_last_of_def
          extract_int32_def extract_int64_def)
qed

text \<open>
  What the function does check: the error is returned exactly for a path without \<open>/\<close>, a
  path ending in \<open>/\<close>, and a path whose only \<open>/\<close> is not its first character.
\<close>

lemma path_parse_status:
  "fst (get_tablet_id_and_schema_hash_from_file_path src_path tablet_id schema_hash) = OK
   \<longleftrightarrow> (\<exists>pre seg. src_path = pre @ ''/'' @ seg \<and> seg \<noteq> [] \<and> CHR ''/'' \<notin> set seg
                  \<and> (pre = [] \<or> CHR ''/'' \<in> set pre))"
  (is "?ok \<longleftrightarrow> ?shape")
proof (cases "CHR ''/'' \<in> set src_path")
  case False
  then have "find_last_of src_path CHR ''/'' None = None"
    by (simp add: find_last_of_None_iff)
  then have "\<not> ?ok"
    by (simp add: get_tablet_id_and_schema_hash_from_file_path_def)
  moreover from False have "\<not> ?shape" by auto
  ultimately show ?thesis by simp
next
  case True
  then obtain pre seg where sp: "src_path = pre @ CHR ''/'' # seg" and ns: "CHR ''/'' \<notin> set seg"
    using split_list_last by fastforce
  then have pos: "find_last_of src_path CHR ''/'' None = Some (length pre)"
    by (simp add: find_last_of_last_split)
  have uniq: "pre' = pre \<and> seg' = seg"
    if "src_path = pre' @ ''/'' @ seg'" "CHR ''/'' \<notin> set seg'" for pre' seg'
    using last_split_unique [of pre' "CHR ''/''" seg' pre seg] that sp ns by simp
  show ?thesis
  proof (cases "seg = []")
    case True
    with pos sp have "\<not> ?ok"
      by (simp add: get_tablet_id_and_schema_hash_from_file_path_def)
    moreover from True uniq have "\<not> ?shape" by blast
    ultimately show ?thesis by simp
  next
    case seg: False
    then have not_last: "length pre + 1 \<noteq> length src_path" using sp by simp
    show ?thesis
    proof (cases "pre = []")
      case True
      with pos sp seg not_last have "?ok"
        by (simp add: get_tablet_id_and_schema_hash_from_file_path_def Let_def)
      moreover from True sp seg ns have "?shape" by auto
      ultimately show ?thesis by simp
    next
      case pre: False
      then have "length pre - 1 < length src_path" using sp by simp
      then have "find_last_of src_path CHR ''/'' (Some (length pre - 1))
                 = find_last_of (take (length pre - 1 + 1) src_path) CHR ''/'' None"
        by (rule find_last_of_Some_take)
      also have "take (length pre - 1 + 1) src_path = pre" using pre sp by simp
      finally have pos2: "find_last_of src_path CHR ''/'' (Some (length pre - 1))
                          = find_last_of pre CHR ''/'' None" .
      have "?ok \<longleftrightarrow> find_last_of pre CHR ''/'' None \<noteq> None"
        using pos pos2 not_last pre
        by (auto simp: get_tablet_id_and_schema_hash_from_file_path_def Let_def split: option.splits)
      also have "\<dots> \<longleftrightarrow> CHR ''/'' \<in> set pre"
        by (simp add: find_last_of_None_iff)
      also have "\<dots> \<longleftrightarrow> ?shape"
      proof
        assume "CHR ''/'' \<in> set pre"
        with sp seg ns show ?shape by auto
      next
        assume ?shape
        then obtain pre' seg' where "src_path = pre' @ ''/'' @ seg'" "CHR ''/'' \<notin> set seg'"
          "pre' = [] \<or> CHR ''/'' \<in> set pre'" by blast
        with uniq pre show "CHR ''/'' \<in> set pre" by blast
      qed
      finally show ?thesis .
    qed
  qed
qed


lemma path_parse_status_examples:
  "fst (get_tablet_id_and_schema_hash_from_file_path ''/snap/a/1001/7'' 0 0) = OK
   \<and> fst (get_tablet_id_and_schema_hash_from_file_path ''1001/7'' 0 0) \<noteq> OK"
proof -
  have "\<exists>pre seg. ''/snap/a/1001/7'' = pre @ ''/'' @ seg \<and> seg \<noteq> [] \<and> CHR ''/'' \<notin> set seg
          \<and> (pre = [] \<or> CHR ''/'' \<in> set pre)"
    by (rule exI [of _ "''/snap/a/1001''"], rule exI [of _ "''7''"]) simp
  moreover have "\<not> (\<exists>pre seg. ''1001/7'' = pre @ ''/'' @ seg \<and> seg \<noteq> [] \<and> CHR ''/'' \<notin> set seg
          \<and> (pre = [] \<or> CHR ''/'' \<in> set pre))"
    by (auto simp: append_eq_Cons_conv Cons_eq_append_conv)
  ultimately show ?thesis
    using path_parse_status [of "''/snap/a/1001/7''" 0 0] path_parse_status [of "''1001/7''" 0 0]
    by blast
qed


subsection \<open>Download: when the tablet id is recorded\<close>

lemma download_pair_parse_fails:
  assumes "fst (get_tablet_id_and_schema_hash_from_file_path local_path 0 0) \<noteq> OK"
  shows "download_pair sys ld fs uninit (remote_path, local_path) rc fin tot ids w
           = (fst (get_tablet_id_and_schema_hash_from_file_path local_path 0 0), ids, rc, w)"
proof -
  obtain st tid sh where p: "get_tablet_id_and_schema_hash_from_file_path local_path 0 0 = (st, tid, sh)"
    by (cases "get_tablet_id_and_schema_hash_from_file_path local_path 0 0") auto
  with assms have "st \<noteq> OK" by simp
  with p show ?thesis by (simp add: download_pair_def)
qed

lemma download_pair_records:
  assumes "fst (get_tablet_id_and_schema_hash_from_file_path local_path 0 0) = OK"
  shows "fst (snd (download_pair sys ld fs uninit (remote_path, local_path) rc fin tot ids w))
           = ids @ [tablet_id_of local_path]"
proof -
  obtain st tid sh where p: "get_tablet_id_and_schema_hash_from_file_path local_path 0 0 = (st, tid, sh)"
    by (cases "get_tablet_id_and_schema_hash_from_file_path local_path 0 0") auto
  with assms have "st = OK" by simp
  with p show ?thesis
    by (simp add: download_pair_def tablet_id_of_def Let_def split: prod.splits option.splits)
qed

lemma download_pair_remote_parse_fails:
  assumes "fst (get_tablet_id_and_schema_hash_from_file_path local_path 0 0) = OK"
    and "fst (get_tablet_id_from_remote_path remote_path uninit) \<noteq> OK"
  shows "download_pair sys ld fs uninit (remote_path, local_path) rc fin tot ids w
           = (fst (get_tablet_id_from_remote_path remote_path uninit),
              ids @ [tablet_id_of local_path], rc, w)"
proof -
  obtain st tid sh where p: "get_tablet_id_and_schema_hash_from_file_path local_path 0 0 = (st, tid, sh)"
    by (cases "get_tablet_id_and_schema_hash_from_file_path local_path 0 0") auto
  obtain st2 rid where q: "get_tablet_id_from_remote_path remote_path uninit = (st2, rid)"
    by (cases "get_tablet_id_from_remote_path remote_path uninit") auto
  from assms p q have "st = OK" "st2 \<noteq> OK" by simp_all
  with p q show ?thesis
    by (simp add: download_pair_def tablet_id_of_def Let_def)
qed

lemma download_pair_ok_parsed:
  assumes "fst (download_pair sys ld fs uninit (remote_path, local_path) rc fin tot ids w) = OK"
  shows "fst (get_tablet_id_and_schema_hash_from_file_path local_path 0 0) = OK"
  using assms download_pair_parse_fails [of local_path sys ld fs uninit remote_path rc fin tot ids w]
  by (cases "fst (get_tablet_id_and_schema_hash_from_file_path local_path 0 0) = OK") simp_all

lemma download_tablets_prefix:
  "download_tablets sys ld fs uninit pairs rc fin tot ids w = (st, ids', w')
   \<Longrightarrow> \<exists>k\<le>length pairs. ids' = ids @ map (tablet_id_of \<circ> snd) (take k pairs)
                        \<and> (st = OK \<longrightarrow> k = length pairs)"
proof (induction pairs arbitrary: rc fin ids w)
  case Nil
  then show ?case by simp
next
  case (Cons p pairs)
  obtain remote_path local_path where p: "p = (remote_path, local_path)" by (cases p)
  obtain st1 ids1 rc1 w1 where
    r: "download_pair sys ld fs uninit (remote_path, local_path) rc fin tot ids w = (st1, ids1, rc1, w1)"
    by (cases "download_pair sys ld fs uninit (remote_path, local_path) rc fin tot ids w") auto
  show ?case
  proof (cases "st1 = OK")
    case True
    with r have "fst (get_tablet_id_and_schema_hash_from_file_path local_path 0 0) = OK"
      using download_pair_ok_parsed [of sys ld fs uninit remote_path local_path rc fin tot ids w]
      by simp
    from download_pair_records [OF this, of sys ld fs uninit remote_path rc fin tot ids w] r
    have ids1: "ids1 = ids @ [tablet_id_of local_path]" by simp
    from Cons.prems p r True
    have "download_tablets sys ld fs uninit pairs rc1 (fin + 1) tot ids1 w1 = (st, ids', w')"
      by simp
    from Cons.IH [OF this] obtain k where
      "k \<le> length pairs" "ids' = ids1 @ map (tablet_id_of \<circ> snd) (take k pairs)"
      "st = OK \<longrightarrow> k = length pairs" by blast
    with ids1 p have "Suc k \<le> length (p # pairs)
        \<and> ids' = ids @ map (tablet_id_of \<circ> snd) (take (Suc k) (p # pairs))
        \<and> (st = OK \<longrightarrow> Suc k = length (p # pairs))" by simp
    then show ?thesis by blast
  next
    case False
    with Cons.prems p r have res: "st = st1" "ids' = ids1" by simp_all
    show ?thesis
    proof (cases "fst (get_tablet_id_and_schema_hash_from_file_path local_path 0 0) = OK")
      case True
      from download_pair_records [OF this, of sys ld fs uninit remote_path rc fin tot ids w] r
      have "ids1 = ids @ [tablet_id_of local_path]" by simp
      with res False p have "Suc 0 \<le> length (p # pairs)
          \<and> ids' = ids @ map (tablet_id_of \<circ> snd) (take (Suc 0) (p # pairs))
          \<and> (st = OK \<longrightarrow> Suc 0 = length (p # pairs))" by simp
      then show ?thesis by blast
    next
      case parse: False
      from download_pair_parse_fails [OF this, of sys ld fs uninit remote_path rc fin tot ids w] r
      have "ids1 = ids" by simp
      with res False have "0 \<le> length (p # pairs)
          \<and> ids' = ids @ map (tablet_id_of \<circ> snd) (take 0 (p # pairs))
          \<and> (st = OK \<longrightarrow> 0 = length (p # pairs))" by simp
      then show ?thesis by blast
    qed
  qed
qed

lemma download_tablets_append:
  "download_tablets sys ld fs uninit done rc fin tot ids w = (OK, ids_d, w_d)
   \<Longrightarrow> \<exists>rc_d. download_tablets sys ld fs uninit (done @ later) rc fin tot ids w
               = download_tablets sys ld fs uninit later rc_d (fin + int (length done)) tot ids_d w_d"
proof (induction "done" arbitrary: rc fin ids w)
  case Nil
  then show ?case by auto
next
  case (Cons p pairs)
  obtain st1 ids1 rc1 w1 where
    r: "download_pair sys ld fs uninit p rc fin tot ids w = (st1, ids1, rc1, w1)"
    by (cases "download_pair sys ld fs uninit p rc fin tot ids w") auto
  from Cons.prems r have ok: "st1 = OK"
    by (auto split: if_splits)
  with Cons.prems r
  have "download_tablets sys ld fs uninit pairs rc1 (fin + 1) tot ids1 w1 = (OK, ids_d, w_d)"
    by simp
  from Cons.IH [OF this] obtain rc_d where
    "download_tablets sys ld fs uninit (pairs @ later) rc1 (fin + 1) tot ids1 w1
       = download_tablets sys ld fs uninit later rc_d (fin + 1 + int (length pairs)) tot ids_d w_d"
    by blast
  with r ok have "download_tablets sys ld fs uninit ((p # pairs) @ later) rc fin tot ids w
       = download_tablets sys ld fs uninit later rc_d (fin + int (length (p # pairs))) tot ids_d w_d"
    by (simp add: algebra_simps)
  then show ?case by blast
qed


text \<open>
  C10. \<open>download\<close> appends the local tablet id of each pair to the output vector right
  after parsing the local path, before anything of that pair is listed, compared or
  transferred. For every pair of the input, once the pairs before it have gone through,
  the vector holds their ids in order, and then: if the local path of the pair does not
  parse, that error is returned with exactly these ids; if it parses, the id of the pair
  comes next in the vector whatever the outcome of the call, followed only by ids of later
  pairs, all of them when the call succeeds; and if the step right after the parse, the
  parsing of the remote path, fails, the error is returned with the id recorded and the
  node and the store as the earlier pairs left them. So when \<open>download\<close> returns an
  error, the vector can hold the id of a tablet of which no file was fetched.
\<close>

theorem download_records_tablet_id_first:
  fixes "done" rest :: "(string \<times> string) list" and remote_path local_path :: string
    and uninit :: int64
  defines "pairs \<equiv> done @ (remote_path, local_path) # rest"
  defines "parsed \<equiv> fst (get_tablet_id_and_schema_hash_from_file_path local_path 0 0)"
  defines "remote_parsed \<equiv> fst (get_tablet_id_from_remote_path remote_path uninit)"
  assumes fs: "remote_fs ld = Some fs"
    and report: "report_every sys ld 0 1 0 0 DOWNLOAD w = (OK, tmp_counter, w1)"
    and dirs: "check_local_snapshot_paths sys pairs False (loc w1) = OK"
    and pre: "download_tablets sys ld fs uninit done 0 0 (int (length pairs)) ids w1 = (OK, ids_d, w_d)"
  shows "ids_d = ids @ map (tablet_id_of \<circ> snd) done
       \<and> (parsed \<noteq> OK \<longrightarrow> download sys ld uninit pairs ids w = (parsed, ids_d, w_d))
       \<and> (parsed = OK \<longrightarrow>
            (\<exists>st k w'. k \<le> length rest \<and> (st = OK \<longrightarrow> k = length rest)
               \<and> download sys ld uninit pairs ids w
                   = (st, ids_d @ tablet_id_of local_path # map (tablet_id_of \<circ> snd) (take k rest), w')))
       \<and> (parsed = OK \<and> remote_parsed \<noteq> OK \<longrightarrow>
            download sys ld uninit pairs ids w = (remote_parsed, ids_d @ [tablet_id_of local_path], w_d))"
proof -
  have d: "download sys ld uninit pairs ids w
             = download_tablets sys ld fs uninit pairs 0 0 (int (length pairs)) ids w1"
    using fs report dirs by (simp add: download_def)
  from download_tablets_prefix [OF pre]
  have a: "ids_d = ids @ map (tablet_id_of \<circ> snd) done" by auto
  from download_tablets_append [OF pre, of "(remote_path, local_path) # rest"] obtain rc_d where
    "download_tablets sys ld fs uninit pairs 0 0 (int (length pairs)) ids w1
       = download_tablets sys ld fs uninit ((remote_path, local_path) # rest) rc_d
           (0 + int (length done)) (int (length pairs)) ids_d w_d"
    unfolding pairs_def by blast
  with d have app: "download sys ld uninit pairs ids w
            = download_tablets sys ld fs uninit ((remote_path, local_path) # rest) rc_d
                (0 + int (length done)) (int (length pairs)) ids_d w_d"
    by simp
  obtain st1 ids1 rc1 w2 where
    r: "download_pair sys ld fs uninit (remote_path, local_path) rc_d (0 + int (length done))
          (int (length pairs)) ids_d w_d = (st1, ids1, rc1, w2)"
    by (cases "download_pair sys ld fs uninit (remote_path, local_path) rc_d (0 + int (length done))
          (int (length pairs)) ids_d w_d") auto
  have b: "download sys ld uninit pairs ids w = (parsed, ids_d, w_d)" if "parsed \<noteq> OK"
    using that download_pair_parse_fails [of local_path sys ld fs uninit remote_path rc_d
        "0 + int (length done)" "int (length pairs)" ids_d w_d]
    unfolding app parsed_def by simp
  have c: "\<exists>st k w'. k \<le> length rest \<and> (st = OK \<longrightarrow> k = length rest)
               \<and> download sys ld uninit pairs ids w
                   = (st, ids_d @ tablet_id_of local_path # map (tablet_id_of \<circ> snd) (take k rest), w')"
    if ok: "parsed = OK"
  proof -
    from ok r download_pair_records [of local_path sys ld fs uninit remote_path rc_d
        "0 + int (length done)" "int (length pairs)" ids_d w_d]
    have ids1: "ids1 = ids_d @ [tablet_id_of local_path]"
      unfolding parsed_def by simp
    show ?thesis
    proof (cases "st1 = OK")
      case False
      with r ids1 have "download sys ld uninit pairs ids w
          = (st1, ids_d @ tablet_id_of local_path # map (tablet_id_of \<circ> snd) (take 0 rest), w2)"
        unfolding app by simp
      with False show ?thesis by blast
    next
      case True
      obtain st ids' w' where rest:
        "download_tablets sys ld fs uninit rest rc1 (0 + int (length done) + 1) (int (length pairs)) ids1 w2
           = (st, ids', w')"
        by (cases "download_tablets sys ld fs uninit rest rc1 (0 + int (length done) + 1)
                     (int (length pairs)) ids1 w2") auto
      from download_tablets_prefix [OF this] obtain k where
        k: "k \<le> length rest" "ids' = ids1 @ map (tablet_id_of \<circ> snd) (take k rest)"
           "st = OK \<longrightarrow> k = length rest" by blast
      from r True rest have "download sys ld uninit pairs ids w = (st, ids', w')"
        unfolding app by simp
      with k ids1 show ?thesis by auto
    qed
  qed
  have e: "download sys ld uninit pairs ids w = (remote_parsed, ids_d @ [tablet_id_of local_path], w_d)"
    if "parsed = OK" "remote_parsed \<noteq> OK"
    using that download_pair_remote_parse_fails [of local_path remote_path uninit sys ld fs rc_d
        "0 + int (length done)" "int (length pairs)" ids_d w_d]
    unfolding app parsed_def remote_parsed_def by simp
  from a b c e show ?thesis by blast
qed


lemma parse_snap_c: "get_tablet_id_and_schema_hash_from_file_path ''/snap/c/1002/7'' 0 0 = (OK, 1002, 7)"
proof -
  have "extract_long ''1002/'' = Some 1002"
    by (simp add: extract_long_def isspace_def isdigit_def Let_def decimal_value_def digit_val_def)
  then show ?thesis
    by (simp add: get_tablet_id_and_schema_hash_from_file_path_def find_last_of_def
          extract_int32_def extract_int64_def extract_long_7)
qed

lemma parse_remote_1001: "get_tablet_id_from_remote_path ''/up/__1001'' 0 = (OK, 1001)"
proof -
  have "extract_long ''1001'' = Some 1001"
    by (simp add: extract_long_def isspace_def isdigit_def Let_def decimal_value_def digit_val_def)
  then show ?thesis
    by (simp add: get_tablet_id_from_remote_path_def find_last_of_def extract_int64_def)
qed

lemma parse_remote_1002: "get_tablet_id_from_remote_path ''/up/__1002'' 0 = (OK, 1002)"
proof -
  have "extract_long ''1002'' = Some 1002"
    by (simp add: extract_long_def isspace_def isdigit_def Let_def decimal_value_def digit_val_def)
  then show ?thesis
    by (simp add: get_tablet_id_from_remote_path_def find_last_of_def extract_int64_def)
qed

lemma demo_download_listing:
  "list_with_checksum (demo_fs S3) ''/up/__1001'' [] (demo_download_world\<lparr>calls := cs\<rparr>)
     = (OK, [(''1001.hdr'', \<lparr>stat_name = ''1001.hdr'', stat_md5 = ''aa'', stat_size = 0\<rparr>),
             (''1001_0.dat'', \<lparr>stat_name = ''1001_0.dat'', stat_md5 = ''bb'', stat_size = 0\<rparr>)],
        demo_download_world\<lparr>calls := cs @ [FsList ''/up/__1001'']\<rparr>)"
  by (simp add: list_with_checksum_def demo_fs_def demo_download_world_def
        demo_children_def path_filename_def find_last_of_def)

lemma demo_download_files:
  "download_files demo_sys (demo_loader S3) (demo_fs S3) ''/up/__1001'' ''/snap/a/1001/7'' 1001 demo_tablet
      [(''1001.hdr'', \<lparr>stat_name = ''1001.hdr'', stat_md5 = ''aa'', stat_size = 0\<rparr>),
       (''1001_0.dat'', \<lparr>stat_name = ''1001_0.dat'', stat_md5 = ''bb'', stat_size = 0\<rparr>)]
      [''1001_0.dat''] 0 0 2
      (demo_download_world\<lparr>calls := cs\<rparr>)
   = (OK, [''1001_0.dat'', ''1001.hdr''], 2,
      demo_download_world
       \<lparr>loc := (loc demo_download_world)\<lparr>node_files :=
                  [(''/snap/a/1001/7/1001_0.dat'', ''bb''), (''/snap/a/1001/7/1001.hdr'', ''aa'')]\<rparr>,
        calls := cs @ [FsDownload ''/up/__1001/1001.hdr.aa'' ''/snap/a/1001/7/1001.hdr'']\<rparr>)"
proof -
  have s: "string_of_int64 1001 = ''1001''" by (simp add: show_simps)
  show ?thesis
    by (simp add: report_every_def need_download_def replace_tablet_id_def end_with_def s
          do_download_def Let_def demo_sys_def demo_fs_def demo_download_world_def)
qed


lemma demo_download_pair_one:
  "download_pair demo_sys (demo_loader S3) (demo_fs S3) 0 (''/up/__1001'', ''/snap/a/1001/7'')
       0 0 2 [] (demo_download_world\<lparr>calls := [demo_report]\<rparr>)
     = (OK, [1001], 2, demo_after_first_pair)"
proof -
  have s: "string_of_int64 1001 = ''1001''" by (simp add: show_simps)
  have locals: "get_existing_files_from_local demo_sys ''/snap/a/1001/7'' []
                  (loc demo_download_world) = (OK, [''1001_0.dat''])"
    by (simp add: get_existing_files_from_local_def demo_sys_def demo_download_world_def demo_children_def)
  have tab: "get_tablet demo_sys 1001 (loc demo_download_world) = Some demo_tablet"
    by (simp add: demo_sys_def demo_download_world_def)
  have prune: "prune_local_files demo_sys ''/snap/a/1001/7'' 1001
      [(''1001.hdr'', \<lparr>stat_name = ''1001.hdr'', stat_md5 = ''aa'', stat_size = 0\<rparr>),
       (''1001_0.dat'', \<lparr>stat_name = ''1001_0.dat'', stat_md5 = ''bb'', stat_size = 0\<rparr>)]
      [''1001_0.dat'', ''1001.hdr''] w = w" for w :: "(demo_node, demo_net) world"
    by (simp add: replace_tablet_id_def end_with_def s)
  show ?thesis
    unfolding download_pair_def demo_after_first_pair_def
    by (simp add: parse_snap_a parse_remote_1001 locals demo_download_listing tab
          demo_download_files prune Let_def del: prune_local_files.simps download_files.simps)
qed


lemma demo_download_pair_two:
  "download_pair demo_sys (demo_loader S3) (demo_fs S3) 0 (''/up/__1002'', ''/snap/c/1002/7'')
       2 1 2 [1001] demo_after_first_pair
     = (Error INTERNAL_ERROR ''get nothing from remote path: /up/__1002'', [1001, 1002], 2,
        demo_after_first_pair\<lparr>calls := calls demo_after_first_pair @ [FsList ''/up/__1002'']\<rparr>)"
  unfolding download_pair_def
  by (simp add: parse_snap_c parse_remote_1002 get_existing_files_from_local_def
        list_with_checksum_def Let_def demo_sys_def demo_fs_def demo_children_def
        demo_after_first_pair_def demo_download_world_def)

lemma demo_download_two_pairs:
  "download demo_sys (demo_loader S3) 0
       [(''/up/__1001'', ''/snap/a/1001/7''), (''/up/__1002'', ''/snap/c/1002/7'')] []
       demo_download_world
     = (Error INTERNAL_ERROR ''get nothing from remote path: /up/__1002'', [1001, 1002],
        demo_after_first_pair\<lparr>calls := calls demo_after_first_pair @ [FsList ''/up/__1002'']\<rparr>)"
proof -
  let ?pairs = "[(''/up/__1001'', ''/snap/a/1001/7''), (''/up/__1002'', ''/snap/c/1002/7'')]"
  let ?w1 = "demo_download_world\<lparr>calls := [demo_report]\<rparr>"
  have fs: "remote_fs (demo_loader S3) = Some (demo_fs S3)"
    by (simp add: demo_loader_def)
  have report: "report_every demo_sys (demo_loader S3) 0 1 0 0 DOWNLOAD demo_download_world
                  = (OK, 0, ?w1)"
    by (simp add: report_every_def demo_report_def demo_sys_def demo_loader_def demo_download_world_def)
  have dirs: "check_local_snapshot_paths demo_sys ?pairs False (loc ?w1) = OK"
    by (simp add: demo_sys_def demo_download_world_def)
  have "download demo_sys (demo_loader S3) 0 ?pairs [] demo_download_world
          = download_tablets demo_sys (demo_loader S3) (demo_fs S3) 0 ?pairs 0 0 2 [] ?w1"
    using fs report dirs
    by (simp add: download_def del: check_local_snapshot_paths.simps download_tablets.simps)
  also have "\<dots> = (Error INTERNAL_ERROR ''get nothing from remote path: /up/__1002'', [1001, 1002],
        demo_after_first_pair\<lparr>calls := calls demo_after_first_pair @ [FsList ''/up/__1002'']\<rparr>)"
    by (simp add: demo_download_pair_one demo_download_pair_two)
  finally show ?thesis .
qed

theorem download_records_tablet_id_first_witness:
  "download demo_sys (demo_loader S3) 0
       [(''/up/__1001'', ''/snap/a/1001/7''), (''/up/__1002'', ''/snap/c/1002/7'')] []
       demo_download_world
     = (Error INTERNAL_ERROR ''get nothing from remote path: /up/__1002'', [1001, 1002],
        demo_after_first_pair\<lparr>calls := calls demo_after_first_pair @ [FsList ''/up/__1002'']\<rparr>)
   \<and> calls demo_after_first_pair @ [FsList ''/up/__1002'']
       = [demo_report, FsList ''/up/__1001'',
          FsDownload ''/up/__1001/1001.hdr.aa'' ''/snap/a/1001/7/1001.hdr'', FsList ''/up/__1002'']
   \<and> download demo_sys (demo_loader S3) 0 [(''/up/b/1001'', ''/snap/b/1001/7'')] [] demo_world
     = (Error INTERNAL_ERROR ''invalid remove file path: /up/b/1001'', [1001],
        demo_world\<lparr>calls := [demo_report]\<rparr>)"
proof -
  have fs: "remote_fs (demo_loader S3) = Some (demo_fs S3)"
    by (simp add: demo_loader_def)
  have report: "report_every demo_sys (demo_loader S3) 0 1 0 0 DOWNLOAD demo_download_world
                  = (OK, 0, demo_download_world\<lparr>calls := [demo_report]\<rparr>)"
    by (simp add: report_every_def demo_report_def demo_sys_def demo_loader_def demo_download_world_def)
  have dirs: "check_local_snapshot_paths demo_sys
                ([(''/up/__1001'', ''/snap/a/1001/7'')] @ (''/up/__1002'', ''/snap/c/1002/7'') # []) False
                (loc (demo_download_world\<lparr>calls := [demo_report]\<rparr>)) = OK"
    by (simp add: demo_sys_def demo_download_world_def)
  have pre: "download_tablets demo_sys (demo_loader S3) (demo_fs S3) 0 [(''/up/__1001'', ''/snap/a/1001/7'')]
               0 0 (int (length ([(''/up/__1001'', ''/snap/a/1001/7'')] @ (''/up/__1002'', ''/snap/c/1002/7'') # [])))
               [] (demo_download_world\<lparr>calls := [demo_report]\<rparr>)
             = (OK, [1001], demo_after_first_pair)"
    by (simp add: demo_download_pair_one)
  have report': "report_every demo_sys (demo_loader S3) 0 1 0 0 DOWNLOAD demo_world
                  = (OK, 0, demo_world\<lparr>calls := [demo_report]\<rparr>)"
    by (simp add: report_every_def demo_report_def demo_sys_def demo_loader_def demo_world_def)
  have dirs': "check_local_snapshot_paths demo_sys ([] @ (''/up/b/1001'', ''/snap/b/1001/7'') # []) False
                (loc (demo_world\<lparr>calls := [demo_report]\<rparr>)) = OK"
    by (simp add: demo_sys_def demo_world_def)
  have pre': "download_tablets demo_sys (demo_loader S3) (demo_fs S3) 0 []
               0 0 (int (length ([] @ (''/up/b/1001'', ''/snap/b/1001/7'') # [])))
               [] (demo_world\<lparr>calls := [demo_report]\<rparr>)
             = (OK, [], demo_world\<lparr>calls := [demo_report]\<rparr>)"
    by simp
  have bad: "get_tablet_id_from_remote_path ''/up/b/1001'' 0
               = (Error INTERNAL_ERROR ''invalid remove file path: /up/b/1001'', 0)"
    by (simp add: get_tablet_id_from_remote_path_def find_last_of_def)
  have tid: "tablet_id_of ''/snap/b/1001/7'' = 1001" "tablet_id_of ''/snap/c/1002/7'' = 1002"
    by (simp_all add: tablet_id_of_def parse_snap_b parse_snap_c)
  show ?thesis
    using download_records_tablet_id_first [OF fs report dirs pre] download_records_tablet_id_first [OF fs report' dirs' pre']
    by (simp add: demo_download_two_pairs bad tid parse_snap_b parse_snap_c
          demo_after_first_pair_def)
qed


subsection \<open>Peer pull: the comparison of local and remote files\<close>

text \<open>
  C3 says that for a file that is not a header and exists locally, an empty remote md5
  makes the decision depend on the size alone. The loop has no such case: after the sizes
  are found equal the two md5 strings are compared as they are, and the md5 sum of a local
  file is never the empty string, so the file is fetched again. (The check after the
  transfer, in the same function, does skip the md5 comparison when the remote md5 is
  empty.)
\<close>

lemma http_diff_empty_md5_downloads:
  assumes "local_files remote_file = Some local_filestat"
    and "\<not> end_with remote_file ''.hdr''"
    and "local_size local_filestat = remote_size remote_filestat"
    and "remote_md5 remote_filestat = []"
    and "local_md5 local_filestat \<noteq> []"
  shows "http_need_download_files ((remote_file, remote_filestat) # rest) local_files acc
           = http_need_download_files rest local_files (acc @ [remote_file])"
  using assms by simp


text \<open>
  C3 at a concrete input: the remote peer declares size 10 and no md5 for \<open>1001_0.dat\<close>,
  the local file has size 10. The file is put on the list of files to fetch.
\<close>

theorem http_diff_empty_md5_example:
  "http_need_download_files
     [(''1001_0.dat'', \<lparr>remote_url = ''http://be:8040/api/_tablet/_download?file=1001_0.dat'',
                        remote_md5 = [], remote_size = 10\<rparr>)]
     [''1001_0.dat'' \<mapsto> \<lparr>local_size = 10, local_md5 = ''d41d8cd98f00b204e9800998ecf8427e''\<rparr>] []
   = [''1001_0.dat'']"
  by (simp add: end_with_def)



subsection \<open>Move: what has happened when the locks cannot be taken\<close>

lemma parse_data: "get_tablet_id_and_schema_hash_from_file_path ''/data/1001/7'' 0 0 = (OK, 1001, 7)"
  by (simp add: get_tablet_id_and_schema_hash_from_file_path_def find_last_of_def
        extract_int32_def extract_int64_def extract_long_7 extract_long_1001)

lemma not_owns_all_locks: "\<not> try_lock sys lk tab l \<Longrightarrow> \<not> owns_all_locks sys tab l"
  by (cases lk) (simp_all add: owns_all_locks_def)

lemma demo_move:
  "move demo_sys (demo_loader S3) ''/snap/a/1001/7'' demo_tablet True demo_world
     = (Returned (Error OBTAIN_LOCK_FAILED ''failed to get tablet locks, tablet: 1001''),
        demo_world\<lparr>loc := (loc demo_world)\<lparr>node_files :=
                       [(''/snap/a/1001/7/1001.hdr'', ''header of 1001''),
                        (''/snap/a/1001/7/1001_0.dat'', ''bb''),
                        (''/snap/b/1001/7/1001.hdr'', ''cc'')]\<rparr>,
                    calls := [ConvertRowsetIds ''/snap/a/1001/7'']\<rparr>)"
proof -
  have s: "string_of_int64 1001 = ''1001''" by (simp add: show_simps)
  show ?thesis
    by (simp add: move_def demo_tablet_def parse_snap_a parse_data demo_sys_def demo_world_def
          demo_convert_rowset_ids_def owns_all_locks_def s Let_def)
qed


text \<open>
  C4, as stated: when a tablet lock cannot be taken, \<open>move\<close> returns the retryable error
  without having changed the tablet directory or the snapshot directory. But
  \<open>convert_rowset_ids\<close> is called on the snapshot directory before the locks are tried.
  On the concrete node the base-compaction lock is busy; \<open>move\<close> returns the error and
  the header in the snapshot directory has been rewritten.
\<close>

theorem move_lock_failure_counterexample:
  "fst (move demo_sys (demo_loader S3) ''/snap/a/1001/7'' demo_tablet True demo_world)
     = Returned (Error OBTAIN_LOCK_FAILED ''failed to get tablet locks, tablet: 1001'')
   \<and> demo_children ''/snap/a/1001/7'' (node_files (loc demo_world))
        = [(''1001.hdr'', ''aa''), (''1001_0.dat'', ''bb'')]
   \<and> demo_children ''/snap/a/1001/7''
         (node_files (loc (snd (move demo_sys (demo_loader S3) ''/snap/a/1001/7'' demo_tablet True demo_world))))
        = [(''1001.hdr'', ''header of 1001''), (''1001_0.dat'', ''bb'')]"
  unfolding demo_move by (simp add: demo_children_def demo_world_def)


text \<open>
  C4, amended: if the checks before it pass, \<open>convert_rowset_ids\<close> succeeds and one of the
  six tablet locks (migration, base-compaction, cumulative-compaction, cold-compaction,
  build-inverted-index, meta-store) cannot be taken, \<open>move\<close> returns the retryable "obtain
  lock failed" error having done nothing of its own to the node: no directory is removed
  or created, no file linked, no tablet reloaded. The node is in the state in which
  \<open>convert_rowset_ids\<close>, run once on the snapshot directory, left it.
\<close>

theorem move_lock_failure_only_converts:
  assumes p1: "get_tablet_id_and_schema_hash_from_file_path snapshot_path 0 0 = (OK, tid, sh)"
    and p2: "get_tablet_id_and_schema_hash_from_file_path (tablet_path tab) 0 0 = (OK, tid, sh)"
    and store: "get_store sys (data_dir_path tab) (loc w)"
    and ex1: "l_exists sys (tablet_path tab) (loc w)"
    and ex2: "l_exists sys snapshot_path (loc w)"
    and conv: "convert_rowset_ids sys snapshot_path tid (replica_id tab) (table_id tab)
                 (partition_id tab) sh (loc w) = (None, l1)"
    and lock: "\<not> try_lock sys lk tab l1"
  shows "move sys ld snapshot_path tab True w
           = (Returned (Error OBTAIN_LOCK_FAILED
                (''failed to get tablet locks, tablet: '' @ string_of_int64 tid)),
              w\<lparr>loc := l1, calls := calls w @ [ConvertRowsetIds snapshot_path]\<rparr>)"
proof -
  from lock have "\<not> owns_all_locks sys tab l1" by (rule not_owns_all_locks)
  with p1 p2 store ex1 ex2 conv show ?thesis
    by (simp add: move_def Let_def)
qed

theorem move_lock_failure_only_converts_witness:
  "move demo_sys (demo_loader S3) ''/snap/a/1001/7'' demo_tablet True demo_world
     = (Returned (Error OBTAIN_LOCK_FAILED ''failed to get tablet locks, tablet: 1001''),
        demo_world\<lparr>loc := (loc demo_world)\<lparr>node_files :=
                       [(''/snap/a/1001/7/1001.hdr'', ''header of 1001''),
                        (''/snap/a/1001/7/1001_0.dat'', ''bb''),
                        (''/snap/b/1001/7/1001.hdr'', ''cc'')]\<rparr>,
                    calls := [ConvertRowsetIds ''/snap/a/1001/7'']\<rparr>)"
proof -
  have s: "string_of_int64 1001 = ''1001''" by (simp add: show_simps)
  have p2: "get_tablet_id_and_schema_hash_from_file_path (tablet_path demo_tablet) 0 0 = (OK, 1001, 7)"
    by (simp add: demo_tablet_def parse_data)
  have store: "get_store demo_sys (data_dir_path demo_tablet) (loc demo_world)"
    and ex1: "l_exists demo_sys (tablet_path demo_tablet) (loc demo_world)"
    and ex2: "l_exists demo_sys ''/snap/a/1001/7'' (loc demo_world)"
    by (simp_all add: demo_sys_def demo_tablet_def demo_world_def)
  have conv: "convert_rowset_ids demo_sys ''/snap/a/1001/7'' 1001 (replica_id demo_tablet)
                 (table_id demo_tablet) (partition_id demo_tablet) 7 (loc demo_world)
              = (None, (loc demo_world)\<lparr>node_files :=
                       [(''/snap/a/1001/7/1001.hdr'', ''header of 1001''),
                        (''/snap/a/1001/7/1001_0.dat'', ''bb''),
                        (''/snap/b/1001/7/1001.hdr'', ''cc'')]\<rparr>)"
    by (simp add: demo_sys_def demo_convert_rowset_ids_def demo_world_def s)
  have lock: "\<not> try_lock demo_sys BASE_COMPACTION_LOCK demo_tablet
                  ((loc demo_world)\<lparr>node_files :=
                       [(''/snap/a/1001/7/1001.hdr'', ''header of 1001''),
                        (''/snap/a/1001/7/1001_0.dat'', ''bb''),
                        (''/snap/b/1001/7/1001.hdr'', ''cc'')]\<rparr>)"
    by (simp add: demo_sys_def demo_world_def)
  show ?thesis
    using move_lock_failure_only_converts [OF parse_snap_a p2 store ex1 ex2 conv lock, of "demo_loader S3"]
    by (simp add: s demo_world_def)
qed


end
